theory Spec2Isabelle
  imports Complex_Main "HOL-Library.Product_Lexorder"
begin

section \<open>Python strings\<close>

text \<open>
  A Python \<open>str\<close> is a sequence of code points. It is modelled by \<^typ>\<open>string\<close>, whose
  characters are the code points 0 to 255 (Latin-1): every literal of the program, and
  every accented letter of its keyword table, lies in that range. The library functions
  below are the restrictions of Python's \<open>str\<close> methods to that range.
\<close>

abbreviation a_agudo :: char where "a_agudo \<equiv> CHR 0xE1"
abbreviation a_til :: char where "a_til \<equiv> CHR 0xE3"
abbreviation c_cedilha :: char where "c_cedilha \<equiv> CHR 0xE7"
abbreviation e_agudo :: char where "e_agudo \<equiv> CHR 0xE9"
abbreviation e_circ :: char where "e_circ \<equiv> CHR 0xEA"
abbreviation i_agudo :: char where "i_agudo \<equiv> CHR 0xED"
abbreviation o_agudo :: char where "o_agudo \<equiv> CHR 0xF3"
abbreviation o_circ :: char where "o_circ \<equiv> CHR 0xF4"
abbreviation o_til :: char where "o_til \<equiv> CHR 0xF5"
abbreviation u_agudo :: char where "u_agudo \<equiv> CHR 0xFA"

definition cp :: "char \<Rightarrow> nat" where
  "cp c = of_char c"

text \<open>\<open>str.isspace\<close> on one character; the class \<open>\s\<close> of \<open>re\<close> is the same set.\<close>

definition py_isspace :: "char \<Rightarrow> bool" where
  "py_isspace c = (cp c \<in> {9, 10, 11, 12, 13, 28, 29, 30, 31, 32, 0x85, 0xA0})"

text \<open>The class \<open>\d\<close> of \<open>re\<close>: the decimal digits.\<close>

definition py_isdigit :: "char \<Rightarrow> bool" where
  "py_isdigit c = (48 \<le> cp c \<and> cp c \<le> 57)"

text \<open>The class \<open>\w\<close> of \<open>re\<close>: alphanumeric characters and the underscore.\<close>

definition py_isword :: "char \<Rightarrow> bool" where
  "py_isword c = (let n = cp c in
     (48 \<le> n \<and> n \<le> 57) \<or> (65 \<le> n \<and> n \<le> 90) \<or> n = 95 \<or> (97 \<le> n \<and> n \<le> 122) \<or>
     n \<in> {0xAA, 0xB2, 0xB3, 0xB5, 0xB9, 0xBA, 0xBC, 0xBD, 0xBE} \<or>
     (0xC0 \<le> n \<and> n \<noteq> 0xD7 \<and> n \<noteq> 0xF7))"

text \<open>\<open>str.lower\<close>: the upper-case letters are A to Z and 0xC0 to 0xDE without 0xD7.\<close>

definition lower_char :: "char \<Rightarrow> char" where
  "lower_char c = (let n = cp c in
     if (65 \<le> n \<and> n \<le> 90) \<or> (0xC0 \<le> n \<and> n \<le> 0xDE \<and> n \<noteq> 0xD7)
     then char_of (n + 32) else c)"

definition py_lower :: "string \<Rightarrow> string" where
  "py_lower s = map lower_char s"

text \<open>
  \<open>str.upper\<close>: the lower-case letters are a to z and 0xE0 to 0xFE without 0xF7; the
  sharp s (0xDF) becomes \<open>SS\<close>. Python sends 0xB5 and 0xFF to code points above 255;
  they are left unchanged here, which no test against an ASCII keyword can observe.
\<close>

definition upper_char :: "char \<Rightarrow> string" where
  "upper_char c = (let n = cp c in
     if (97 \<le> n \<and> n \<le> 122) \<or> (0xE0 \<le> n \<and> n \<le> 0xFE \<and> n \<noteq> 0xF7)
     then [char_of (n - 32)]
     else if n = 0xDF then ''SS'' else [c])"

definition py_upper :: "string \<Rightarrow> string" where
  "py_upper s = concat (map upper_char s)"

text \<open>\<open>s.startswith(p)\<close>, \<open>s.endswith(p)\<close> and \<open>p in s\<close>.\<close>

fun startswith :: "string \<Rightarrow> string \<Rightarrow> bool" where
  "startswith s [] = True"
| "startswith [] (p # ps) = False"
| "startswith (c # cs) (p # ps) = (c = p \<and> startswith cs ps)"

definition endswith :: "string \<Rightarrow> string \<Rightarrow> bool" where
  "endswith s p = startswith (rev s) (rev p)"

fun py_in :: "string \<Rightarrow> string \<Rightarrow> bool" where
  "py_in p [] = (p = [])"
| "py_in p (c # cs) = (startswith (c # cs) p \<or> py_in p cs)"

text \<open>\<open>str.strip()\<close> removes white space at both ends.\<close>

definition py_strip :: "string \<Rightarrow> string" where
  "py_strip s = rev (dropWhile py_isspace (rev (dropWhile py_isspace s)))"

text \<open>\<open>s.split('\n')\<close>: the pieces between line feeds, at least one piece.\<close>

fun split_lines :: "string \<Rightarrow> string list" where
  "split_lines [] = [[]]"
| "split_lines (c # cs) =
     (if c = CHR 0x0A then [] # split_lines cs
      else (case split_lines cs of
              [] \<Rightarrow> [[c]]
            | l # ls \<Rightarrow> (c # l) # ls))"

section \<open>Categorizer (categorizador.py)\<close>

text \<open>The table of \<open>categorizar_por_cnae\<close>, a dictionary in insertion order.\<close>

definition categorias :: "(string \<times> string list) list" where
"categorias = [
  (''Alimenta'' @ [c_cedilha, a_til] @ ''o'',
     [''restaurante'', ''lanchonete'', ''padaria'', ''confeitaria'', ''pizzaria'',
      ''hamburgueria'', ''sorveteria'', ''a'' @ [c_cedilha] @ ''a'' @ [i_agudo],
      ''comida'', ''alimento'', ''bebida'', ''bar'', ''pub'', ''cervejaria'',
      ''cafeteria'', ''caf'' @ [e_agudo], ''pastelaria'', ''doceria'',
      ''panifica'' @ [c_cedilha, a_til] @ ''o'', ''mercearia'', ''supermercado'',
      ''hipermercado'', ''minimercado'', ''emp'' @ [o_agudo] @ ''rio'',
      ''delicatessen'']),
  (''Transporte'',
     [''taxi'', ''uber'', ''transporte'', ''combust'' @ [i_agudo] @ ''vel'',
      ''gasolina'', ''etanol'', ''diesel'', ''posto'', ''estacionamento'',
      ''ped'' @ [a_agudo] @ ''gio'', [o_circ] @ ''nibus'', ''metr'' @ [o_circ],
      ''trem'', ''avi'' @ [a_til] @ ''o'', ''passagem'',
      ''loca'' @ [c_cedilha, a_til] @ ''o de ve'' @ [i_agudo] @ ''culos'',
      ''aluguel de carros'', ''moto'', ''bicicleta'']),
  (''Hospedagem'',
     [''hotel'', ''pousada'', ''hostel'', ''motel'', ''resort'', ''hospedagem'',
      ''alojamento'', ''pens'' @ [a_til] @ ''o'', ''apart-hotel'', ''flat'']),
  (''Sa'' @ [u_agudo] @ ''de'',
     [''farm'' @ [a_agudo] @ ''cia'', ''drogaria'', ''medicamento'', ''hospital'',
      ''cl'' @ [i_agudo] @ ''nica'', ''consult'' @ [o_agudo] @ ''rio'',
      ''m'' @ [e_agudo] @ ''dico'', ''dentista'', ''laborat'' @ [o_agudo] @ ''rio'',
      ''exame'', ''fisioterapia'', ''psicologia'', ''veterin'' @ [a_agudo] @ ''rio'',
      [o_agudo] @ ''tica'', [o_agudo] @ ''culos'']),
  (''Educa'' @ [c_cedilha, a_til] @ ''o'',
     [''escola'', ''universidade'', ''faculdade'', ''curso'', ''treinamento'',
      ''educa'' @ [c_cedilha, a_til] @ ''o'', ''ensino'', ''livraria'',
      ''papelaria'', ''material escolar'', ''biblioteca'',
      ''semin'' @ [a_agudo] @ ''rio'', ''workshop'']),
  (''Tecnologia'',
     [''inform'' @ [a_agudo] @ ''tica'', ''computador'', ''software'', ''hardware'',
      ''eletr'' @ [o_circ] @ ''nico'', ''celular'', ''smartphone'', ''tablet'',
      ''notebook'', ''impressora'', ''internet'',
      ''telecomunica'' @ [c_cedilha, o_til] @ ''es'', ''telefonia'', ''dados'']),
  (''Vestu'' @ [a_agudo] @ ''rio'',
     [''roupa'', ''vestu'' @ [a_agudo] @ ''rio'', ''cal'' @ [c_cedilha] @ ''ado'',
      ''sapato'', ''t'' @ [e_circ] @ ''nis'', ''sand'' @ [a_agudo] @ ''lia'',
      ''confec'' @ [c_cedilha, a_til] @ ''o'', ''moda'', ''boutique'',
      ''loja de roupas'', ''alfaiataria'', ''sapataria'',
      ''acess'' @ [o_agudo] @ ''rios'']),
  (''Servi'' @ [c_cedilha] @ ''os'',
     [''consultoria'', ''advocacia'', ''contabilidade'', ''auditoria'',
      ''engenharia'', ''arquitetura'', ''design'', ''publicidade'', ''marketing'',
      ''limpeza'', ''seguran'' @ [c_cedilha] @ ''a'',
      ''manuten'' @ [c_cedilha, a_til] @ ''o'', ''reparo'',
      ''instala'' @ [c_cedilha, a_til] @ ''o'']),
  (''Entretenimento'',
     [''cinema'', ''teatro'', ''show'', ''evento'', ''festa'', ''entretenimento'',
      ''divers'' @ [a_til] @ ''o'', ''parque'', ''museu'',
      ''exposi'' @ [c_cedilha, a_til] @ ''o'', ''jogo'', ''esporte'', ''academia'',
      ''gin'' @ [a_agudo] @ ''stica'', ''clube'',
      ''recrea'' @ [c_cedilha, a_til] @ ''o'']),
  (''Material de Escrit'' @ [o_agudo] @ ''rio'',
     [''papelaria'', ''escrit'' @ [o_agudo] @ ''rio'',
      ''material de escrit'' @ [o_agudo] @ ''rio'', ''impress'' @ [a_til] @ ''o'',
      ''gr'' @ [a_agudo] @ ''fica'', ''fotoc'' @ [o_agudo] @ ''pia'',
      ''encaderna'' @ [c_cedilha, a_til] @ ''o'', ''papel'', ''caneta'', ''arquivo'',
      ''pasta'', ''organizador''])]"

definition Outros :: string where
  "Outros = ''Outros''"

text \<open>The inner loop of \<open>categorizar_por_cnae\<close>: is some keyword of the list in the description?\<close>

fun alguma_palavra :: "string list \<Rightarrow> string \<Rightarrow> bool" where
  "alguma_palavra [] descricao_lower = False"
| "alguma_palavra (palavra # palavras) descricao_lower =
     (if py_in palavra descricao_lower then True
      else alguma_palavra palavras descricao_lower)"

text \<open>The outer loop: the categories in the order of the dictionary, returning at the first hit.\<close>

fun percorre_categorias :: "(string \<times> string list) list \<Rightarrow> string \<Rightarrow> string" where
  "percorre_categorias [] descricao_lower = Outros"
| "percorre_categorias ((categoria, palavras_chave) # resto) descricao_lower =
     (if alguma_palavra palavras_chave descricao_lower then categoria
      else percorre_categorias resto descricao_lower)"

definition categorizar_por_cnae :: "string \<Rightarrow> string" where
  "categorizar_por_cnae descricao_cnae =
     (if descricao_cnae = [] then Outros
      else percorre_categorias categorias (py_lower descricao_cnae))"

section \<open>Regular expressions (the part of \<open>re\<close> that the program uses)\<close>

text \<open>
  The patterns of the program use literal characters, the classes \<open>\d\<close>, \<open>\s\<close> and
  \<open>\w\<close>, sets \<open>[...]\<close> and \<open>[^...]\<close>, greedy repetition of one character or class,
  alternation in non-capturing groups, one capturing group, and the anchors \<open>^\<close> and
  \<open>$\<close>. The matcher lists the ways a pattern matches at a position in the order in which
  the backtracking matcher of \<open>re\<close> tries them, so the head of the list is the match that
  \<open>re\<close> reports.
\<close>

datatype item = C char | D | S | W

datatype atom = One item | In "item list" | NotIn "item list"

datatype regex =
    Eps
  | Atom atom
  | Rep atom nat "nat option"
  | Cat regex regex
  | Or regex regex
  | Group regex
  | Bol
  | Eol

record flags =
  ignorecase :: bool
  multiline :: bool

definition sem_flags :: flags where
  "sem_flags = \<lparr>ignorecase = False, multiline = False\<rparr>"

fun item_match :: "bool \<Rightarrow> item \<Rightarrow> char \<Rightarrow> bool" where
  "item_match ic (C x) c = (if ic then lower_char x = lower_char c else x = c)"
| "item_match ic D c = py_isdigit c"
| "item_match ic S c = py_isspace c"
| "item_match ic W c = py_isword c"

fun atom_match :: "bool \<Rightarrow> atom \<Rightarrow> char \<Rightarrow> bool" where
  "atom_match ic (One i) c = item_match ic i c"
| "atom_match ic (In is) c = list_ex (\<lambda>i. item_match ic i c) is"
| "atom_match ic (NotIn is) c = (\<not> list_ex (\<lambda>i. item_match ic i c) is)"

text \<open>A match in progress: the position reached and the span of group 1 once closed.\<close>

record marca =
  posicao :: nat
  grupo :: "(nat \<times> nat) option"

definition inicio_de_linha :: "flags \<Rightarrow> string \<Rightarrow> nat \<Rightarrow> bool" where
  "inicio_de_linha fl texto i =
     (i = 0 \<or> (multiline fl \<and> i \<le> length texto \<and> texto ! (i - 1) = CHR 0x0A))"

definition fim_de_linha :: "flags \<Rightarrow> string \<Rightarrow> nat \<Rightarrow> bool" where
  "fim_de_linha fl texto i =
     (i = length texto \<or>
      (Suc i = length texto \<and> texto ! i = CHR 0x0A) \<or>
      (multiline fl \<and> i < length texto \<and> texto ! i = CHR 0x0A))"

text \<open>How many characters from position \<open>i\<close> on match the atom, up to the bound.\<close>

definition quantos :: "bool \<Rightarrow> atom \<Rightarrow> nat option \<Rightarrow> string \<Rightarrow> nat \<Rightarrow> nat" where
  "quantos ic a n texto i =
     (let k = length (takeWhile (atom_match ic a) (drop i texto))
      in case n of None \<Rightarrow> k | Some b \<Rightarrow> min b k)"

fun run :: "flags \<Rightarrow> string \<Rightarrow> regex \<Rightarrow> marca \<Rightarrow> marca list" where
  "run fl texto Eps m = [m]"
| "run fl texto (Atom a) m =
     (if posicao m < length texto \<and> atom_match (ignorecase fl) a (texto ! posicao m)
      then [m\<lparr>posicao := Suc (posicao m)\<rparr>] else [])"
| "run fl texto (Rep a lo hi) m =
     (let k = quantos (ignorecase fl) a hi texto (posicao m)
      in map (\<lambda>j. m\<lparr>posicao := posicao m + j\<rparr>) (rev [lo..<Suc k]))"
| "run fl texto (Cat r1 r2) m = concat (map (run fl texto r2) (run fl texto r1 m))"
| "run fl texto (Or r1 r2) m = run fl texto r1 m @ run fl texto r2 m"
| "run fl texto (Group r) m =
     map (\<lambda>m'. m'\<lparr>grupo := Some (posicao m, posicao m')\<rparr>) (run fl texto r m)"
| "run fl texto Bol m = (if inicio_de_linha fl texto (posicao m) then [m] else [])"
| "run fl texto Eol m = (if fim_de_linha fl texto (posicao m) then [m] else [])"

definition comeca :: "nat \<Rightarrow> marca" where
  "comeca i = \<lparr>posicao = i, grupo = None\<rparr>"

text \<open>The text of group 1 of a match, the empty string when the group took no part.\<close>

definition texto_do_grupo :: "string \<Rightarrow> marca \<Rightarrow> string" where
  "texto_do_grupo texto m =
     (case grupo m of None \<Rightarrow> [] | Some (a, b) \<Rightarrow> take (b - a) (drop a texto))"

text \<open>
  \<open>re.findall\<close> for a pattern with one group: the matches from left to right, none
  overlapping, each giving the text of its group. No pattern of the program matches the
  empty string; after an empty match the scan moves one character on.
\<close>

function findall_de :: "flags \<Rightarrow> regex \<Rightarrow> string \<Rightarrow> nat \<Rightarrow> string list" where
  "findall_de fl r texto i =
     (if length texto < i then []
      else (case run fl texto r (comeca i) of
              [] \<Rightarrow> findall_de fl r texto (Suc i)
            | m # _ \<Rightarrow> texto_do_grupo texto m #
                findall_de fl r texto (if posicao m \<le> i then Suc i else posicao m)))"
  by pat_completeness auto
termination
  by (relation "measure (\<lambda>(fl, r, texto, i). Suc (length texto) - i)") auto

declare findall_de.simps [simp del]

definition findall :: "flags \<Rightarrow> regex \<Rightarrow> string \<Rightarrow> string list" where
  "findall fl r texto = findall_de fl r texto 0"

text \<open>
  \<open>re.sub\<close>: every match, from left to right, is replaced; the characters between
  matches are kept. The patterns given to it match one character or more.
\<close>

function sub_de :: "flags \<Rightarrow> regex \<Rightarrow> string \<Rightarrow> string \<Rightarrow> nat \<Rightarrow> string" where
  "sub_de fl r repl texto i =
     (if length texto \<le> i then []
      else (case run fl texto r (comeca i) of
              [] \<Rightarrow> texto ! i # sub_de fl r repl texto (Suc i)
            | m # _ \<Rightarrow>
                if posicao m \<le> i then texto ! i # sub_de fl r repl texto (Suc i)
                else repl @ sub_de fl r repl texto (posicao m)))"
  by pat_completeness auto
termination
  by (relation "measure (\<lambda>(fl, r, repl, texto, i). length texto - i)") auto

declare sub_de.simps [simp del]

definition re_sub :: "regex \<Rightarrow> string \<Rightarrow> string \<Rightarrow> string" where
  "re_sub r repl texto = sub_de sem_flags r repl texto 0"

text \<open>Writing patterns: a literal word, a sequence, and the quantifiers.\<close>

definition seq :: "regex list \<Rightarrow> regex" where
  "seq rs = foldr Cat rs Eps"

definition lit :: "string \<Rightarrow> regex" where
  "lit s = seq (map (\<lambda>c. Atom (One (C c))) s)"

definition estrela :: "atom \<Rightarrow> regex" where
  "estrela a = Rep a 0 None"

definition mais :: "atom \<Rightarrow> regex" where
  "mais a = Rep a 1 None"

definition opcional :: "atom \<Rightarrow> regex" where
  "opcional a = Rep a 0 (Some 1)"

definition vezes :: "atom \<Rightarrow> nat \<Rightarrow> regex" where
  "vezes a n = Rep a n (Some n)"

definition entre :: "atom \<Rightarrow> nat \<Rightarrow> nat \<Rightarrow> regex" where
  "entre a lo hi = Rep a lo (Some hi)"

section \<open>Identifier extraction (ocr_aws.py, \<open>extrair_cnpj\<close>)\<close>

definition flags_cnpj :: flags where
  "flags_cnpj = \<lparr>ignorecase = True, multiline = True\<rparr>"

text \<open>
  The four patterns, in the order of the list \<open>padroes_cnpj\<close>:
  \<^verbatim>\<open>CNPJ[:\s]*(\d{2}\.?\d{3}\.?\d{3}\/?\d{4}-?\d{2})\<close>,
  \<^verbatim>\<open>CNPJ[:\s]*(\d{14})\<close>,
  \<^verbatim>\<open>(?:^|\s)(\d{14})(?:\s|$)\<close> and
  \<^verbatim>\<open>(\d{2}\.\d{3}\.\d{3}/\d{4}-\d{2})\<close>.
\<close>

definition padrao_cnpj_formatado :: regex where
  "padrao_cnpj_formatado =
     seq [lit ''CNPJ'', estrela (In [C (CHR '':''), S]),
          Group (seq [vezes (One D) 2, opcional (One (C (CHR ''.''))),
                      vezes (One D) 3, opcional (One (C (CHR ''.''))),
                      vezes (One D) 3, opcional (One (C (CHR ''/''))),
                      vezes (One D) 4, opcional (One (C (CHR ''-''))),
                      vezes (One D) 2])]"

definition padrao_cnpj_sem_formatacao :: regex where
  "padrao_cnpj_sem_formatacao =
     seq [lit ''CNPJ'', estrela (In [C (CHR '':''), S]), Group (vezes (One D) 14)]"

definition padrao_cnpj_isolado :: regex where
  "padrao_cnpj_isolado =
     seq [Or Bol (Atom (One S)), Group (vezes (One D) 14), Or (Atom (One S)) Eol]"

definition padrao_cnpj_formatado_isolado :: regex where
  "padrao_cnpj_formatado_isolado =
     Group (seq [vezes (One D) 2, Atom (One (C (CHR ''.''))),
                 vezes (One D) 3, Atom (One (C (CHR ''.''))),
                 vezes (One D) 3, Atom (One (C (CHR ''/''))),
                 vezes (One D) 4, Atom (One (C (CHR ''-''))),
                 vezes (One D) 2])"

definition padroes_cnpj :: "regex list" where
  "padroes_cnpj =
     [padrao_cnpj_formatado, padrao_cnpj_sem_formatacao,
      padrao_cnpj_isolado, padrao_cnpj_formatado_isolado]"

text \<open>\<^verbatim>\<open>re.sub(r'[^\d]', '', match)\<close>: the digits of a match.\<close>

definition so_digitos :: "string \<Rightarrow> string" where
  "so_digitos match = re_sub (Atom (NotIn [D])) [] match"

text \<open>The test of lines 93 to 95 on a cleaned candidate.\<close>

definition cnpj_aceito :: "string \<Rightarrow> bool" where
  "cnpj_aceito cnpj_limpo =
     (if length cnpj_limpo = 14
      then \<not> startswith cnpj_limpo ''00000'' \<and>
           \<not> list_all (\<lambda>d. d = cnpj_limpo ! 0) cnpj_limpo
      else False)"

text \<open>The inner loop over the matches of one pattern, returning at the first accepted one.\<close>

fun percorre_matches :: "string list \<Rightarrow> string option" where
  "percorre_matches [] = None"
| "percorre_matches (match # matches) =
     (let cnpj_limpo = so_digitos match
      in if cnpj_aceito cnpj_limpo then Some cnpj_limpo
         else percorre_matches matches)"

text \<open>The outer loop over the patterns.\<close>

fun percorre_padroes :: "regex list \<Rightarrow> string \<Rightarrow> string option" where
  "percorre_padroes [] texto_limpo = None"
| "percorre_padroes (padrao # padroes) texto_limpo =
     (case percorre_matches (findall flags_cnpj padrao texto_limpo) of
        Some cnpj \<Rightarrow> Some cnpj
      | None \<Rightarrow> percorre_padroes padroes texto_limpo)"

text \<open>Lines 72 and 73: punctuation to spaces, then runs of white space to one space.\<close>

definition limpa_texto :: "string \<Rightarrow> string" where
  "limpa_texto texto =
     re_sub (mais (One S)) '' ''
       (re_sub (Atom (NotIn [W, S, C (CHR ''.''), C (CHR ''-''), C (CHR ''/'')])) '' '' texto)"

definition extrair_cnpj :: "string \<Rightarrow> string option" where
  "extrair_cnpj texto = percorre_padroes padroes_cnpj (limpa_texto texto)"

section \<open>Amount extraction (ocr_aws.py, \<open>extrair_valor_total\<close>)\<close>

definition flags_valor :: flags where
  "flags_valor = \<lparr>ignorecase = True, multiline = False\<rparr>"

text \<open>The token \<^verbatim>\<open>\d{1,6}[,.]?\d{2}\<close> of the first five patterns, as group 1.\<close>

definition token_valor :: regex where
  "token_valor =
     Group (seq [entre (One D) 1 6, opcional (In [C (CHR '',''), C (CHR ''.'')]),
                 vezes (One D) 2])"

text \<open>\<^verbatim>\<open>[:\s]*R?\$?\s*\<close>, shared by the two keyword patterns.\<close>

definition apos_palavra :: "regex list" where
  "apos_palavra =
     [estrela (In [C (CHR '':''), S]), opcional (One (C (CHR ''R''))),
      opcional (One (C (CHR ''$''))), estrela (One S)]"

text \<open>
  The six patterns, in the order of the list \<open>padroes_valor\<close>:
  \<^verbatim>\<open>(?:TOTAL|VALOR\s*TOTAL|TOTAL\s*GERAL)[:\s]*R?\$?\s*(\d{1,6}[,.]?\d{2})\<close>,
  \<^verbatim>\<open>(?:TOTAL|VALOR)[:\s]*R?\$?\s*(\d{1,6}[,.]?\d{2})\<close>,
  \<^verbatim>\<open>R\$\s*(\d{1,6}[,.]?\d{2})\<close>,
  \<^verbatim>\<open>RS\s*(\d{1,6}[,.]?\d{2})\<close>,
  \<^verbatim>\<open>(\d{1,6}[,.]?\d{2})\s*$\<close> and
  \<^verbatim>\<open>(?:^|\s)(\d{1,4}[,.]\d{2})(?:\s|$)\<close>.
\<close>

definition padrao_total :: regex where
  "padrao_total =
     seq ([Or (lit ''TOTAL'')
              (Or (seq [lit ''VALOR'', estrela (One S), lit ''TOTAL''])
                  (seq [lit ''TOTAL'', estrela (One S), lit ''GERAL'']))]
          @ apos_palavra @ [token_valor])"

definition padrao_total_ou_valor :: regex where
  "padrao_total_ou_valor =
     seq ([Or (lit ''TOTAL'') (lit ''VALOR'')] @ apos_palavra @ [token_valor])"

definition padrao_cifrao :: regex where
  "padrao_cifrao = seq [lit ''R$'', estrela (One S), token_valor]"

definition padrao_rs :: regex where
  "padrao_rs = seq [lit ''RS'', estrela (One S), token_valor]"

definition padrao_fim_de_linha :: regex where
  "padrao_fim_de_linha = seq [token_valor, estrela (One S), Eol]"

definition padrao_isolado :: regex where
  "padrao_isolado =
     seq [Or Bol (Atom (One S)),
          Group (seq [entre (One D) 1 4, Atom (In [C (CHR '',''), C (CHR ''.'')]),
                      vezes (One D) 2]),
          Or (Atom (One S)) Eol]"

definition padroes_valor :: "regex list" where
  "padroes_valor =
     [padrao_total, padrao_total_ou_valor, padrao_cifrao, padrao_rs,
      padrao_fim_de_linha, padrao_isolado]"

text \<open>\<open>s.replace(old, new)\<close> for a one-character \<open>old\<close>.\<close>

definition replace_char :: "char \<Rightarrow> string \<Rightarrow> string \<Rightarrow> string" where
  "replace_char old new s = concat (map (\<lambda>c. if c = old then new else [c]) s)"

text \<open>Lines 139 to 143: the string handed to \<open>float\<close>.\<close>

definition valor_str_de :: "string \<Rightarrow> string" where
  "valor_str_de match =
     (let valor_str = replace_char (CHR '','') ''.'' match
      in if py_in ''.'' valor_str \<and> py_in '','' match
         then replace_char (CHR '','') ''.'' (replace_char (CHR ''.'') [] match)
         else valor_str)"

text \<open>
  \<open>float\<close> on a decimal numeral without sign or exponent, the only strings that reach it:
  digits, at most one point, and a digit on one side of it at least. Any other string is
  a \<open>ValueError\<close>, the value \<open>None\<close>. The amounts of the program have at most eight
  digits, two of them after the point, so the nearest double, its comparisons, sums of
  a few of them and its rendering with two decimals agree with the decimal value: a
  \<open>float\<close> is modelled by the rational number that the numeral denotes.
\<close>

definition valor_dos_digitos :: "string \<Rightarrow> int" where
  "valor_dos_digitos ds = foldl (\<lambda>a d. 10 * a + (int (cp d) - 48)) 0 ds"

definition py_float :: "string \<Rightarrow> rat option" where
  "py_float s =
     (let inteira = takeWhile py_isdigit s;
          resto = dropWhile py_isdigit s
      in if resto = [] then
           (if inteira = [] then None else Some (of_int (valor_dos_digitos inteira)))
         else if hd resto = CHR ''.'' \<and> list_all py_isdigit (tl resto) \<and>
                 (inteira \<noteq> [] \<or> tl resto \<noteq> [])
         then Some (of_int (valor_dos_digitos inteira) +
                    of_int (valor_dos_digitos (tl resto)) / 10 ^ length (tl resto))
         else None)"

text \<open>
  The decimal digits of a number that is not negative, and \<open>f'{valor:.2f}'\<close>: the sign,
  the whole part, a point and two digits. Every amount it is given is a whole number of
  hundredths, so no rounding takes place.
\<close>

function str_int :: "int \<Rightarrow> string" where
  "str_int n =
     (if n < 10 then [char_of (48 + nat n)]
      else str_int (n div 10) @ [char_of (48 + nat (n mod 10))])"
  by pat_completeness auto
termination
  by (relation "measure nat") auto

declare str_int.simps [simp del]

definition formata_2f :: "rat \<Rightarrow> string" where
  "formata_2f valor =
     (let centavos = \<lfloor>\<bar>valor\<bar> * 100 + 1 / 2\<rfloor>
      in (if valor < 0 then ''-'' else []) @
         str_int (centavos div 100) @ ''.'' @
         [char_of (48 + nat (centavos mod 100 div 10)), char_of (48 + nat (centavos mod 10))])"

text \<open>Lines 149 to 158: the weight of an accepted value on its line.\<close>

definition peso_de :: "string \<Rightarrow> rat \<Rightarrow> int" where
  "peso_de linha valor =
     (let peso = 1;
          linha_upper = py_upper linha;
          peso = (if list_ex (\<lambda>palavra. py_in palavra linha_upper)
                       [''TOTAL'', ''VALOR TOTAL'', ''TOTAL GERAL'']
                  then peso + 10 else peso);
          peso = (if py_in ''R$'' linha \<or> py_in ''RS'' linha then peso + 5 else peso);
          peso = (if endswith (py_strip linha)
                       (replace_char (CHR ''.'') '','' (formata_2f valor))
                  then peso + 3 else peso)
      in peso)"

text \<open>
  The body of the loop over matches for one match: the pair appended to
  \<open>valores_encontrados\<close>, or nothing when the value is out of range or \<open>float\<close> fails.
\<close>

definition candidato :: "string \<Rightarrow> string \<Rightarrow> (rat \<times> int) option" where
  "candidato linha match =
     (case py_float (valor_str_de match) of
        None \<Rightarrow> None
      | Some valor \<Rightarrow>
          if 1 / 100 \<le> valor \<and> valor \<le> 99999999 / 100
          then Some (valor, peso_de linha valor) else None)"

fun processa_matches ::
  "string \<Rightarrow> string list \<Rightarrow> (rat \<times> int) list \<Rightarrow> (rat \<times> int) list" where
  "processa_matches linha [] valores_encontrados = valores_encontrados"
| "processa_matches linha (match # matches) valores_encontrados =
     (case candidato linha match of
        None \<Rightarrow> processa_matches linha matches valores_encontrados
      | Some par \<Rightarrow> processa_matches linha matches (valores_encontrados @ [par]))"

fun processa_padroes ::
  "string \<Rightarrow> regex list \<Rightarrow> (rat \<times> int) list \<Rightarrow> (rat \<times> int) list" where
  "processa_padroes linha [] valores_encontrados = valores_encontrados"
| "processa_padroes linha (padrao # padroes) valores_encontrados =
     processa_padroes linha padroes
       (processa_matches linha (findall flags_valor padrao linha) valores_encontrados)"

fun processa_linhas :: "string list \<Rightarrow> (rat \<times> int) list \<Rightarrow> (rat \<times> int) list" where
  "processa_linhas [] valores_encontrados = valores_encontrados"
| "processa_linhas (linha # linhas) valores_encontrados =
     (let linha = py_strip linha
      in if linha = [] then processa_linhas linhas valores_encontrados
         else processa_linhas linhas
                (processa_padroes linha padroes_valor valores_encontrados))"

text \<open>\<open>xs.sort(key=chave, reverse=True)\<close>: stable, greatest key first.\<close>

definition ordena_reverso :: "('a \<Rightarrow> 'k::linorder) \<Rightarrow> 'a list \<Rightarrow> 'a list" where
  "ordena_reverso chave xs = rev (sort_key chave (rev xs))"

definition extrair_valor_total :: "string \<Rightarrow> rat" where
  "extrair_valor_total texto =
     (let valores_encontrados = processa_linhas (split_lines texto) []
      in if valores_encontrados = [] then 0
         else fst (ordena_reverso (\<lambda>x. (snd x, fst x)) valores_encontrados ! 0))"

section \<open>Registry lookup (categorizador.py)\<close>

text \<open>
  The exceptions that \<open>except Exception\<close> can catch: those of the class
  \<open>requests.exceptions.RequestException\<close> (connection failures, time-outs and the
  other transport errors of \<open>requests\<close>) and the others.
\<close>

datatype excecao = RequestException | OutraExcecao

text \<open>
  A JSON object of the registry as a dictionary in insertion order, and a response of
  \<open>requests.get\<close>: its status code and what \<open>response.json()\<close> gives.
\<close>

type_synonym dict = "(string \<times> string) list"

record resposta =
  status_code :: int
  json :: "excecao + dict"

definition dict_get :: "dict \<Rightarrow> string \<Rightarrow> string \<Rightarrow> string" where
  "dict_get d chave padrao = (case map_of d chave of None \<Rightarrow> padrao | Some v \<Rightarrow> v)"

text \<open>
  \<open>consultar_cnpj_brasilapi\<close>, with \<open>requests.get\<close> as a parameter. The handler
  catches \<open>RequestException\<close> only; any other exception leaves the function.
\<close>

definition consultar_cnpj_brasilapi ::
  "(string \<Rightarrow> excecao + resposta) \<Rightarrow> string \<Rightarrow> excecao + dict option" where
  "consultar_cnpj_brasilapi requests_get cnpj =
     (let url = ''https://brasilapi.com.br/api/cnpj/v1/'' @ cnpj
      in case requests_get url of
           Inl e \<Rightarrow> (if e = RequestException then Inr None else Inl e)
         | Inr response \<Rightarrow>
             if status_code response = 200
             then (case json response of
                     Inl e \<Rightarrow> (if e = RequestException then Inr None else Inl e)
                   | Inr dados \<Rightarrow> Inr (Some dados))
             else Inr None)"

record info_empresa =
  nome :: string
  atividade_principal :: string
  cnae_codigo :: string

text \<open>\<open>CategorizadorDespesas.consultar_cnpj\<close>; \<open>if dados\<close> holds for a dictionary with a key.\<close>

definition consultar_cnpj ::
  "(string \<Rightarrow> excecao + resposta) \<Rightarrow> string \<Rightarrow> excecao + info_empresa option" where
  "consultar_cnpj requests_get cnpj =
     (case consultar_cnpj_brasilapi requests_get cnpj of
        Inl e \<Rightarrow> Inl e
      | Inr None \<Rightarrow> Inr None
      | Inr (Some dados) \<Rightarrow>
          if dados \<noteq> []
          then Inr (Some \<lparr>nome = dict_get dados ''razao_social''
                                   (''Nome n'' @ [a_til] @ ''o dispon'' @ [i_agudo] @ ''vel''),
                          atividade_principal = dict_get dados ''cnae_fiscal_descricao'' [],
                          cnae_codigo = dict_get dados ''cnae_fiscal'' []\<rparr>)
          else Inr None)"

section \<open>The batch loop (ocr_aws.py, main.py)\<close>

text \<open>
  The cloud services are parameters: \<open>cliente\<close> is \<open>boto3.client\<close> for a region, which
  \<open>OCRAws.__init__\<close> lets fail, and \<open>textract\<close> reads an image and gives the texts of
  its \<open>LINE\<close> blocks, or fails.
\<close>

record dados_canhoto =
  cnpj :: "string option"
  valor :: rat
  texto_completo :: string

record registro = dados_canhoto +
  empresa :: string
  atividade :: string
  categoria :: string
  arquivo :: string

text \<open>\<open>'\n'.join(linhas)\<close>.\<close>

fun junta_linhas :: "string list \<Rightarrow> string" where
  "junta_linhas [] = []"
| "junta_linhas [l] = l"
| "junta_linhas (l # ls) = l @ [CHR 0x0A] @ junta_linhas ls"

text \<open>\<open>extrair_texto_aws\<close>: every exception becomes the empty text.\<close>

definition extrair_texto_aws :: "(string \<Rightarrow> excecao + string list) \<Rightarrow> string \<Rightarrow> string" where
  "extrair_texto_aws textract caminho_imagem =
     (case textract caminho_imagem of
        Inl e \<Rightarrow> []
      | Inr linhas \<Rightarrow> junta_linhas linhas)"

definition extrair_dados_canhoto ::
  "(string \<Rightarrow> excecao + string list) \<Rightarrow> string \<Rightarrow> dados_canhoto" where
  "extrair_dados_canhoto textract caminho_imagem =
     (let texto = extrair_texto_aws textract caminho_imagem
      in if texto = [] then \<lparr>cnpj = None, valor = 0, texto_completo = []\<rparr>
         else \<lparr>cnpj = extrair_cnpj texto, valor = extrair_valor_total texto,
               texto_completo = texto\<rparr>)"

definition extrair_dados_canhoto_aws ::
  "(string \<Rightarrow> excecao + unit) \<Rightarrow> (string \<Rightarrow> excecao + string list) \<Rightarrow>
   string \<Rightarrow> string \<Rightarrow> excecao + dados_canhoto" where
  "extrair_dados_canhoto_aws cliente textract caminho_imagem region_name =
     (case cliente region_name of
        Inl e \<Rightarrow> Inl e
      | Inr u \<Rightarrow> Inr (extrair_dados_canhoto textract caminho_imagem))"

text \<open>The services that one run of the batch uses.\<close>

record servicos =
  cliente :: "string \<Rightarrow> excecao + unit"
  textract :: "string \<Rightarrow> excecao + string list"
  requests_get :: "string \<Rightarrow> excecao + resposta"

text \<open>\<open>Path.name\<close>: the last component of a path.\<close>

definition nome_do_arquivo :: "string \<Rightarrow> string" where
  "nome_do_arquivo caminho = rev (takeWhile (\<lambda>c. c \<noteq> CHR ''/'') (rev caminho))"

definition completa ::
  "dados_canhoto \<Rightarrow> string \<Rightarrow> string \<Rightarrow> string \<Rightarrow> string \<Rightarrow> registro" where
  "completa dados e a c arq =
     dados_canhoto.extend dados
       (registro.fields e a c arq)"

text \<open>The body of the \<open>try\<close> of \<open>processar_canhotos\<close> for one image (lines 67 to 103).\<close>

definition processar_imagem :: "servicos \<Rightarrow> string \<Rightarrow> string \<Rightarrow> excecao + registro" where
  "processar_imagem sv region_name caminho_imagem =
     (case extrair_dados_canhoto_aws (cliente sv) (textract sv) caminho_imagem region_name of
        Inl e \<Rightarrow> Inl e
      | Inr dados \<Rightarrow>
          (case cnpj dados of
             None \<Rightarrow>
               Inr (completa dados (''CNPJ n'' @ [a_til] @ ''o encontrado'')
                      (''N'' @ [a_til] @ ''o identificada'') ''Outros''
                      (nome_do_arquivo caminho_imagem))
           | Some c \<Rightarrow>
               if c = [] then
                 Inr (completa dados (''CNPJ n'' @ [a_til] @ ''o encontrado'')
                        (''N'' @ [a_til] @ ''o identificada'') ''Outros''
                        (nome_do_arquivo caminho_imagem))
               else
                 (case consultar_cnpj (requests_get sv) c of
                    Inl e \<Rightarrow> Inl e
                  | Inr None \<Rightarrow>
                      Inr (completa dados (''N'' @ [a_til] @ ''o identificada'')
                             (''N'' @ [a_til] @ ''o identificada'') ''Outros''
                             (nome_do_arquivo caminho_imagem))
                  | Inr (Some info) \<Rightarrow>
                      Inr (completa dados (nome info) (atividade_principal info)
                             (categorizar_por_cnae (atividade_principal info))
                             (nome_do_arquivo caminho_imagem)))))"

text \<open>The record that the \<open>except\<close> branch appends (lines 109 to 117).\<close>

definition registro_de_erro :: "string \<Rightarrow> registro" where
  "registro_de_erro caminho_imagem =
     \<lparr>cnpj = None, valor = 0, texto_completo = [],
      empresa = ''Erro no processamento'', atividade = ''Erro'', categoria = ''Outros'',
      arquivo = nome_do_arquivo caminho_imagem\<rparr>"

text \<open>The loop of \<open>processar_canhotos\<close>, with the list \<open>resultados\<close> passed along.\<close>

fun laco_canhotos ::
  "servicos \<Rightarrow> string \<Rightarrow> string list \<Rightarrow> registro list \<Rightarrow> registro list" where
  "laco_canhotos sv region_name [] resultados = resultados"
| "laco_canhotos sv region_name (caminho_imagem # imagens) resultados =
     (case processar_imagem sv region_name caminho_imagem of
        Inr dados \<Rightarrow> laco_canhotos sv region_name imagens (resultados @ [dados])
      | Inl e \<Rightarrow>
          laco_canhotos sv region_name imagens
            (resultados @ [registro_de_erro caminho_imagem]))"

definition processar_canhotos :: "servicos \<Rightarrow> string list \<Rightarrow> string \<Rightarrow> registro list" where
  "processar_canhotos sv imagens region_name = laco_canhotos sv region_name imagens []"

section \<open>Doubles\<close>

text \<open>
  A Python \<open>float\<close> is an IEEE 754 double. A finite double is modelled by the rational
  number that it denotes. \<open>dbl\<close> rounds a rational number to the nearest double, a tie
  going to the even significand; the significand has 53 bits, and below
  \<open>2 ^ (- 1022)\<close> the spacing stays \<open>2 ^ (- 1074)\<close>. An operation on doubles gives the
  rounding of the exact result. The model covers the finite doubles: a result that
  would reach \<open>2 ^ 1024\<close> is an infinity in Python and is outside it.
\<close>

text \<open>The number of binary digits of a positive integer.\<close>

function comprimento_bits :: "int \<Rightarrow> int" where
  "comprimento_bits n = (if n \<le> 0 then 0 else 1 + comprimento_bits (n div 2))"
  by pat_completeness auto
termination
  by (relation "measure nat") auto

declare comprimento_bits.simps [simp del]

definition pot2 :: "int \<Rightarrow> rat" where
  "pot2 k = (if 0 \<le> k then 2 ^ nat k else 1 / 2 ^ nat (- k))"

text \<open>The exponent \<open>e\<close> with \<open>2 ^ e \<le> \<bar>x\<bar> < 2 ^ (e + 1)\<close>, for \<open>x\<close> other than 0.\<close>

definition expoente :: "rat \<Rightarrow> int" where
  "expoente x =
     (let (p, q) = quotient_of \<bar>x\<bar>;
          d = comprimento_bits p - comprimento_bits q
      in if pot2 d \<le> \<bar>x\<bar> then d else d - 1)"

text \<open>The nearest integer, a tie going to the even one.\<close>

definition arredonda_par :: "rat \<Rightarrow> int" where
  "arredonda_par q =
     (let f = \<lfloor>q\<rfloor>; r = q - of_int f
      in if r < 1 / 2 then f
         else if 1 / 2 < r then f + 1
         else if even f then f else f + 1)"

definition dbl :: "rat \<Rightarrow> rat" where
  "dbl x =
     (if x = 0 then 0
      else let ulp = pot2 (max (expoente x) (- 1022) - 52)
      in of_int (arredonda_par (x / ulp)) * ulp)"

text \<open>\<open>a + b\<close>, \<open>a * b\<close> and \<open>a / b\<close> on doubles (\<open>b\<close> other than 0 in the last).\<close>

definition fadd :: "rat \<Rightarrow> rat \<Rightarrow> rat" where
  "fadd a b = dbl (a + b)"

definition fmul :: "rat \<Rightarrow> rat \<Rightarrow> rat" where
  "fmul a b = dbl (a * b)"

definition fdiv :: "rat \<Rightarrow> rat \<Rightarrow> rat" where
  "fdiv a b = dbl (a / b)"

section \<open>Reports (main.py \<open>gerar_relatorio\<close>, categorizador.py \<open>gerar_relatorio_categorias\<close>)\<close>

text \<open>
  A report is modelled by the numbers it shows, not by its characters: the grand total
  and, for each category listed, its name, total, percentage and the number of block
  characters of its bar. The reports compute with doubles. An amount is given to them
  as the decimal number that was read, and the double that the program holds is the
  nearest one: the reports read an amount \<open>v\<close> as \<open>dbl v\<close>.
\<close>

record linha_grafico =
  categoria_l :: string
  valor_l :: rat
  percentual_l :: rat
  tamanho_barra :: int

text \<open>\<open>int(x)\<close> on a number: truncation towards zero.\<close>

definition py_int :: "rat \<Rightarrow> int" where
  "py_int x = (if x < 0 then - \<lfloor>- x\<rfloor> else \<lfloor>x\<rfloor>)"

text \<open>
  Lines 141 to 144 of main.py on the dictionary \<open>gastos_por_categoria\<close>: a new key
  starts at \<open>0.0\<close>, at the end; then the value is added.
\<close>

fun soma_na_categoria :: "string \<Rightarrow> rat \<Rightarrow> (string \<times> rat) list \<Rightarrow> (string \<times> rat) list" where
  "soma_na_categoria c v [] = [(c, fadd 0 v)]"
| "soma_na_categoria c v ((c', v') # resto) =
     (if c' = c then (c', fadd v' v) # resto
      else (c', v') # soma_na_categoria c v resto)"

text \<open>The loop of lines 137 to 145, passing the dictionary and the total along.\<close>

fun agrupa :: "registro list \<Rightarrow> (string \<times> rat) list \<times> rat \<Rightarrow> (string \<times> rat) list \<times> rat" where
  "agrupa [] (gastos_por_categoria, total_geral) = (gastos_por_categoria, total_geral)"
| "agrupa (resultado # resultados) (gastos_por_categoria, total_geral) =
     agrupa resultados
       (soma_na_categoria (categoria resultado) (dbl (valor resultado)) gastos_por_categoria,
        fadd total_geral (dbl (valor resultado)))"

text \<open>The loop of lines 156 to 163: a category with a positive total gets a line and a bar.\<close>

fun linhas_do_console :: "rat \<Rightarrow> (string \<times> rat) list \<Rightarrow> linha_grafico list" where
  "linhas_do_console total_geral [] = []"
| "linhas_do_console total_geral ((c, v) # resto) =
     (if v > 0 then
        (let percentual = fmul (fdiv v total_geral) 100;
             barras = py_int (fdiv percentual (dbl (333 / 100)))
         in \<lparr>categoria_l = c, valor_l = v, percentual_l = percentual,
              tamanho_barra = barras\<rparr> # linhas_do_console total_geral resto)
      else linhas_do_console total_geral resto)"

text \<open>\<open>gerar_relatorio\<close>: the total printed and the category lines printed.\<close>

definition gerar_relatorio :: "registro list \<Rightarrow> rat \<times> linha_grafico list" where
  "gerar_relatorio resultados =
     (let (gastos_por_categoria, total_geral) = agrupa resultados ([], 0)
      in if total_geral > 0
         then (total_geral,
               linhas_do_console total_geral (ordena_reverso snd gastos_por_categoria))
         else (total_geral, []))"

text \<open>
  \<open>gerar_relatorio_categorias\<close> divides by the grand total and by the greatest total;
  a division by zero raises \<open>ZeroDivisionError\<close>.
\<close>

datatype erro_aritmetico = ZeroDivisionError

datatype relatorio =
    Nenhum_gasto
  | Relatorio rat "linha_grafico list"

text \<open>\<open>max\<close> of a list that is not empty.\<close>

fun py_max :: "rat list \<Rightarrow> rat" where
  "py_max [] = 1"
| "py_max (v # vs) = fold max vs v"

text \<open>The loop of lines 231 to 240 of categorizador.py.\<close>

fun linhas_das_categorias ::
  "rat \<Rightarrow> rat \<Rightarrow> (string \<times> rat) list \<Rightarrow> erro_aritmetico + linha_grafico list" where
  "linhas_das_categorias total_geral valor_maximo [] = Inr []"
| "linhas_das_categorias total_geral valor_maximo ((c, v) # resto) =
     (if total_geral = 0 then Inl ZeroDivisionError
      else let percentual = fmul (fdiv v total_geral) 100
      in if valor_maximo = 0 then Inl ZeroDivisionError
      else let barra = py_int (fmul (fdiv v valor_maximo) 30)
      in case linhas_das_categorias total_geral valor_maximo resto of
           Inl e \<Rightarrow> Inl e
         | Inr ls \<Rightarrow>
             Inr (\<lparr>categoria_l = c, valor_l = v, percentual_l = percentual,
                   tamanho_barra = barra\<rparr> # ls))"

text \<open>
  The builtin \<open>sum\<close> is a parameter: on doubles it adds from left to right up to
  Python 3.11 and with a compensated sum from Python 3.12 on. \<open>soma_esquerda\<close> is the
  sum from left to right, starting at 0; it is also what \<open>total_geral += valor\<close>
  computes in main.py.
\<close>

definition soma_esquerda :: "rat list \<Rightarrow> rat" where
  "soma_esquerda vs = foldl fadd 0 vs"

definition gerar_relatorio_categorias ::
  "(rat list \<Rightarrow> rat) \<Rightarrow> (string \<times> rat) list \<Rightarrow> erro_aritmetico + relatorio" where
  "gerar_relatorio_categorias py_sum gastos =
     (let gastos_por_categoria = map (\<lambda>(c, v). (c, dbl v)) gastos
      in if gastos_por_categoria = [] then Inr Nenhum_gasto
      else
        let total_geral = py_sum (map snd gastos_por_categoria);
            categorias_ordenadas = ordena_reverso snd gastos_por_categoria;
            valor_maximo = (if gastos_por_categoria \<noteq> []
                            then py_max (map snd gastos_por_categoria) else 1)
        in case linhas_das_categorias total_geral valor_maximo categorias_ordenadas of
             Inl e \<Rightarrow> Inl e
           | Inr ls \<Rightarrow> Inr (Relatorio total_geral ls))"

section \<open>Notions used to state the properties\<close>

text \<open>A string occurs in another one, somewhere.\<close>

definition ocorre_em :: "string \<Rightarrow> string \<Rightarrow> bool" where
  "ocorre_em p s = (\<exists>us vs. s = us @ p @ vs)"

text \<open>
  The candidates of the amount extraction, said in one piece: for each line that is not
  empty once stripped, in order, for each pattern, in order, the pairs of its matches.
\<close>

definition candidatos_da_linha :: "string \<Rightarrow> (rat \<times> int) list" where
  "candidatos_da_linha linha =
     concat (map (\<lambda>padrao. List.map_filter (candidato linha)
                               (findall flags_valor padrao linha)) padroes_valor)"

definition candidatos :: "string \<Rightarrow> (rat \<times> int) list" where
  "candidatos texto =
     concat (map candidatos_da_linha
                 (filter (\<lambda>linha. linha \<noteq> []) (map py_strip (split_lines texto))))"

text \<open>
  The candidates of the identifier extraction: the digits of every match, pattern after
  pattern, match after match.
\<close>

definition candidatos_cnpj :: "string \<Rightarrow> string list" where
  "candidatos_cnpj texto =
     map so_digitos
       (concat (map (\<lambda>padrao. findall flags_cnpj padrao (limpa_texto texto)) padroes_cnpj))"

abbreviation Alimentacao :: string where
  "Alimentacao \<equiv> ''Alimenta'' @ [c_cedilha, a_til] @ ''o''"
abbreviation Saude :: string where
  "Saude \<equiv> ''Sa'' @ [u_agudo] @ ''de''"
abbreviation Educacao :: string where
  "Educacao \<equiv> ''Educa'' @ [c_cedilha, a_til] @ ''o''"
abbreviation Material_de_Escritorio :: string where
  "Material_de_Escritorio \<equiv> ''Material de Escrit'' @ [o_agudo] @ ''rio''"

text \<open>What one image contributes to the results.\<close>

definition registro_da_imagem :: "servicos \<Rightarrow> string \<Rightarrow> string \<Rightarrow> registro" where
  "registro_da_imagem sv region_name caminho_imagem =
     (case processar_imagem sv region_name caminho_imagem of
        Inr dados \<Rightarrow> dados
      | Inl e \<Rightarrow> registro_de_erro caminho_imagem)"

text \<open>
  Services for the examples: the identifier of the second image makes the registry
  request fail with an exception that is no \<open>RequestException\<close>.
\<close>

definition servicos_exemplo :: servicos where
  "servicos_exemplo =
     \<lparr>cliente = (\<lambda>region_name. Inr ()),
      textract = (\<lambda>caminho.
         if caminho = ''canhotos/b.png''
         then Inr [''CNPJ 12345678000190'']
         else Inr [''CNPJ 11222333000181'']),
      requests_get = (\<lambda>url.
         if url = ''https://brasilapi.com.br/api/cnpj/v1/11222333000181''
         then Inr \<lparr>status_code = 200,
                   json = Inr [(''razao_social'', ''ACME LTDA''),
                               (''cnae_fiscal_descricao'', ''Restaurantes e similares'')]\<rparr>
         else Inl OutraExcecao)\<rparr>"

text \<open>A record of the batch with a category and an amount, for the examples.\<close>

definition registro_exemplo :: "string \<Rightarrow> rat \<Rightarrow> registro" where
  "registro_exemplo c v =
     \<lparr>cnpj = None, valor = v, texto_completo = [], empresa = [], atividade = [],
      categoria = c, arquivo = []\<rparr>"

text \<open>The bodies of the capturing groups of a pattern.\<close>

fun corpos :: "regex \<Rightarrow> regex list" where
  "corpos (Group r) = [r]"
| "corpos (Cat r1 r2) = corpos r1 @ corpos r2"
| "corpos (Or r1 r2) = corpos r1 @ corpos r2"
| "corpos r = []"

text \<open>
  A stretch of a text from \<open>a\<close> to \<open>b\<close> that is made of digits, then at most one
  character of any kind, then digits.
\<close>

definition um_separador :: "string \<Rightarrow> nat \<Rightarrow> nat \<Rightarrow> bool" where
  "um_separador texto a b =
     (\<exists>p q. a \<le> p \<and> p \<le> q \<and> q \<le> b \<and> q \<le> Suc p \<and>
            (\<forall>k. a \<le> k \<and> k < p \<longrightarrow> py_isdigit (texto ! k)) \<and>
            (\<forall>k. q \<le> k \<and> k < b \<longrightarrow> py_isdigit (texto ! k)))"

text \<open>
  The categories of a batch in the order in which they first occur, and the total of a
  category: the sum, from left to right, of the amounts of its records.
\<close>

fun primeiras :: "'a list \<Rightarrow> 'a list" where
  "primeiras [] = []"
| "primeiras (c # cs) = c # filter (\<lambda>x. x \<noteq> c) (primeiras cs)"

definition total_da_categoria :: "string \<Rightarrow> registro list \<Rightarrow> rat" where
  "total_da_categoria c resultados =
     soma_esquerda (map (\<lambda>r. dbl (valor r)) (filter (\<lambda>r. categoria r = c) resultados))"

text \<open>The value that a dictionary holds for a key, 0 when the key is absent.\<close>

definition valor_em :: "(string \<times> rat) list \<Rightarrow> string \<Rightarrow> rat" where
  "valor_em g c = (case map_of g c of None \<Rightarrow> 0 | Some v \<Rightarrow> v)"

section \<open>Properties of the categorizer\<close>

lemma startswith_iff: "startswith s p \<longleftrightarrow> (\<exists>vs. s = p @ vs)"
  by (induction s p rule: startswith.induct) auto

lemma ocorre_em_Cons:
  "ocorre_em p (c # cs) \<longleftrightarrow> (\<exists>vs. c # cs = p @ vs) \<or> ocorre_em p cs"
proof
  assume "ocorre_em p (c # cs)"
  then obtain us vs where e: "c # cs = us @ p @ vs"
    unfolding ocorre_em_def by blast
  show "(\<exists>vs. c # cs = p @ vs) \<or> ocorre_em p cs"
  proof (cases us)
    case Nil
    with e show ?thesis by auto
  next
    case (Cons u us')
    with e have "cs = us' @ p @ vs" by simp
    then show ?thesis unfolding ocorre_em_def by blast
  qed
next
  assume "(\<exists>vs. c # cs = p @ vs) \<or> ocorre_em p cs"
  then show "ocorre_em p (c # cs)"
  proof
    assume "\<exists>vs. c # cs = p @ vs"
    then obtain vs where "c # cs = [] @ p @ vs" by auto
    then show ?thesis unfolding ocorre_em_def by blast
  next
    assume "ocorre_em p cs"
    then obtain us vs where "cs = us @ p @ vs"
      unfolding ocorre_em_def by blast
    then have "c # cs = (c # us) @ p @ vs" by simp
    then show ?thesis unfolding ocorre_em_def by blast
  qed
qed

lemma py_in_iff: "py_in p s \<longleftrightarrow> ocorre_em p s"
proof (induction s)
  case Nil
  show ?case by (auto simp: ocorre_em_def)
next
  case (Cons c cs)
  then show ?case by (simp add: startswith_iff ocorre_em_Cons)
qed

lemma alguma_palavra_iff: "alguma_palavra ps d \<longleftrightarrow> (\<exists>p\<in>set ps. py_in p d)"
  by (induction ps) auto

lemma percorre_categorias_find:
  "percorre_categorias cats d =
     (case find (\<lambda>(c, ps). \<exists>p\<in>set ps. ocorre_em p d) cats of
        None \<Rightarrow> Outros | Some (c, ps) \<Rightarrow> c)"
  by (induction cats d rule: percorre_categorias.induct)
     (auto simp: alguma_palavra_iff py_in_iff)

lemma palavras_nao_vazias: "\<forall>(c, ps)\<in>set categorias. [] \<notin> set ps"
  by (simp add: categorias_def)

lemma find_descricao_vazia:
  "find (\<lambda>(c, ps). \<exists>p\<in>set ps. ocorre_em p []) categorias = None"
  using palavras_nao_vazias by (auto simp: find_None_iff ocorre_em_def)

lemma categorizar_find:
  "categorizar_por_cnae d =
     (case find (\<lambda>(c, ps). \<exists>p\<in>set ps. ocorre_em p (py_lower d)) categorias of
        None \<Rightarrow> Outros | Some (c, ps) \<Rightarrow> c)"
proof (cases "d = []")
  case True
  then show ?thesis
    by (simp add: categorizar_por_cnae_def py_lower_def find_descricao_vazia)
next
  case False
  then show ?thesis
    by (simp add: categorizar_por_cnae_def percorre_categorias_find)
qed

lemma percorre_categorias_append:
  "percorre_categorias (xs @ ys) d =
     (if \<exists>(c, ps)\<in>set xs. alguma_palavra ps d then percorre_categorias xs d
      else percorre_categorias ys d)"
  by (induction xs d rule: percorre_categorias.induct) auto

lemma percorre_categorias_acha:
  "\<exists>(c, ps)\<in>set xs. alguma_palavra ps d \<Longrightarrow> percorre_categorias xs d \<in> fst ` set xs"
  by (induction xs d rule: percorre_categorias.induct) auto

lemma percorre_categorias_nao_acha:
  "\<forall>(c, ps)\<in>set xs. \<not> alguma_palavra ps d \<Longrightarrow> percorre_categorias xs d = Outros"
  by (induction xs d rule: percorre_categorias.induct) auto

lemma cinco_primeiras:
  "fst ` set (take 5 categorias) =
     {Alimentacao, ''Transporte'', ''Hospedagem'', Saude, Educacao}"
  by (simp add: categorias_def)

lemma papelaria_na_quinta:
  "\<exists>ps. categorias ! 4 = (Educacao, ps) \<and> ''papelaria'' \<in> set ps"
  by (simp add: categorias_def)

text \<open>
  C4. Categorizer: the result is the first category of the table, in its order, one of
  whose keywords occurs in the lower-cased description, and \<open>Outros\<close> when there is
  none; the empty description gives \<open>Outros\<close>, and "Restaurante e Lanchonete" gives
  \<open>Alimentacao\<close>.
\<close>

theorem categorizar_primeira_categoria:
  "categorizar_por_cnae d =
     (case find (\<lambda>(c, ps). \<exists>p\<in>set ps. ocorre_em p (py_lower d)) categorias of
        None \<Rightarrow> ''Outros'' | Some (c, ps) \<Rightarrow> c)
   \<and> categorizar_por_cnae [] = ''Outros''
   \<and> categorizar_por_cnae ''Restaurante e Lanchonete'' = Alimentacao"
proof -
  have "categorizar_por_cnae ''Restaurante e Lanchonete'' = Alimentacao"
    by code_simp
  moreover have "categorizar_por_cnae [] = ''Outros''"
    by (simp add: categorizar_por_cnae_def Outros_def)
  ultimately show ?thesis
    using categorizar_find [of d, unfolded Outros_def] by simp
qed

theorem categorizar_primeira_categoria_witness:
  "(case find (\<lambda>(c, ps). \<exists>p\<in>set ps. ocorre_em p (py_lower ''Posto de Gasolina'')) categorias of
      None \<Rightarrow> ''Outros'' | Some (c, ps) \<Rightarrow> c) = ''Transporte''"
proof -
  have "categorizar_por_cnae ''Posto de Gasolina'' = ''Transporte''"
    by code_simp
  then show ?thesis
    using categorizar_primeira_categoria [of "''Posto de Gasolina''"] by simp
qed

text \<open>
  C10. A description whose lower-cased form contains "papelaria" is never put in
  \<open>Material_de_Escritorio\<close>: the result is \<open>Educacao\<close> or one of the four categories
  declared before it, and it is \<open>Educacao\<close> when no keyword of those four occurs.
\<close>

theorem papelaria_nunca_material_de_escritorio:
  assumes "py_in ''papelaria'' (py_lower d)"
  shows "categorizar_por_cnae d \<noteq> Material_de_Escritorio
       \<and> categorizar_por_cnae d \<in> {Alimentacao, ''Transporte'', ''Hospedagem'', Saude, Educacao}
       \<and> ((\<forall>(c, ps)\<in>set (take 4 categorias). \<forall>p\<in>set ps. \<not> py_in p (py_lower d))
            \<longrightarrow> categorizar_por_cnae d = Educacao)"
proof -
  let ?d = "py_lower d"
  from assms have nv: "d \<noteq> []" by (auto simp: py_lower_def)
  then have r: "categorizar_por_cnae d = percorre_categorias categorias ?d"
    by (simp add: categorizar_por_cnae_def)
  obtain ps where q: "categorias ! 4 = (Educacao, ps)" and p: "''papelaria'' \<in> set ps"
    using papelaria_na_quinta by blast
  have l: "length categorias = 10" by (simp add: categorias_def)
  have a: "alguma_palavra ps ?d" using assms p by (auto simp: alguma_palavra_iff)
  have t5: "take 5 categorias = take 4 categorias @ [(Educacao, ps)]"
    using q l by (simp add: take_Suc_conv_app_nth [of 4 categorias, simplified])
  have s: "categorias = take 5 categorias @ drop 5 categorias" by simp
  have h: "\<exists>(c, ps)\<in>set (take 5 categorias). alguma_palavra ps ?d"
    using a t5 by auto
  have e: "percorre_categorias categorias ?d = percorre_categorias (take 5 categorias) ?d"
    using percorre_categorias_append [of "take 5 categorias" "drop 5 categorias" ?d] h
    by simp
  have m: "categorizar_por_cnae d \<in> {Alimentacao, ''Transporte'', ''Hospedagem'', Saude, Educacao}"
    using percorre_categorias_acha [OF h] cinco_primeiras r e by simp
  have n: "categorizar_por_cnae d \<noteq> Material_de_Escritorio"
    using m by auto
  have u: "categorizar_por_cnae d = Educacao"
    if "\<forall>(c, ps)\<in>set (take 4 categorias). \<forall>p\<in>set ps. \<not> py_in p ?d"
  proof -
    from that have "\<forall>(c, ps)\<in>set (take 4 categorias). \<not> alguma_palavra ps ?d"
      by (auto simp: alguma_palavra_iff)
    then have "percorre_categorias (take 5 categorias) ?d = percorre_categorias [(Educacao, ps)] ?d"
      unfolding t5 percorre_categorias_append by auto
    then show ?thesis using r e a by simp
  qed
  from m n u show ?thesis by blast
qed

theorem papelaria_nunca_material_de_escritorio_witness:
  "py_in ''papelaria'' (py_lower ''Papelaria Central'')
   \<and> categorizar_por_cnae ''Papelaria Central'' \<noteq> Material_de_Escritorio
   \<and> categorizar_por_cnae ''Papelaria Central'' \<in>
         {Alimentacao, ''Transporte'', ''Hospedagem'', Saude, Educacao}"
proof -
  have h: "py_in ''papelaria'' (py_lower ''Papelaria Central'')" by code_simp
  from papelaria_nunca_material_de_escritorio [OF h] h show ?thesis by blast
qed

theorem papelaria_counterexample:
  "py_in ''papelaria'' ''restaurante e papelaria''
   \<and> categorizar_por_cnae ''restaurante e papelaria'' = Alimentacao
   \<and> categorizar_por_cnae ''restaurante e papelaria'' \<noteq> Educacao"
  by code_simp


section \<open>Properties of the regular-expression functions\<close>

lemma sub_de_Atom:
  "sub_de fl (Atom a) repl texto i =
     concat (map (\<lambda>c. if atom_match (ignorecase fl) a c then repl else [c]) (drop i texto))"
proof (induction "length texto - i" arbitrary: i)
  case 0
  then show ?case by (simp add: sub_de.simps [of fl "Atom a" repl texto i])
next
  case (Suc n)
  then have lt: "i < length texto" and n: "n = length texto - Suc i" by auto
  have d: "drop i texto = texto ! i # drop (Suc i) texto"
    using lt by (simp add: Cons_nth_drop_Suc)
  show ?case
    using lt Suc.hyps(1) [OF n]
    by (simp add: sub_de.simps [of fl "Atom a" repl texto i] d comeca_def)
qed

lemma so_digitos_filter: "so_digitos match = filter py_isdigit match"
proof -
  have "concat (map (\<lambda>c. if \<not> py_isdigit c then [] else [c]) s) = filter py_isdigit s" for s
    by (induction s) auto
  then show ?thesis
    by (simp add: so_digitos_def re_sub_def sub_de_Atom sem_flags_def)
qed

section \<open>Properties of the identifier extraction\<close>

lemma startswith_take: "startswith s p \<longleftrightarrow> take (length p) s = p"
  by (induction s p rule: startswith.induct) auto

lemma startswith_cinco_zeros: "startswith c ''00000'' \<longleftrightarrow> take 5 c = ''00000''"
proof -
  have l: "length ''00000'' = 5" by simp
  show ?thesis unfolding startswith_take l by (rule refl)
qed

lemma cnpj_aceito_iff:
  "cnpj_aceito c \<longleftrightarrow>
     length c = 14 \<and> take 5 c \<noteq> ''00000'' \<and> (\<exists>d\<in>set c. d \<noteq> c ! 0)"
  unfolding cnpj_aceito_def startswith_cinco_zeros list_all_iff by auto

lemma find_concatenado:
  "find P (xs @ ys) = (case find P xs of None \<Rightarrow> find P ys | Some x \<Rightarrow> Some x)"
  by (induction xs) auto

lemma percorre_matches_find:
  "percorre_matches ms = find cnpj_aceito (map so_digitos ms)"
  by (induction ms) (auto simp: Let_def)

lemma percorre_padroes_find:
  "percorre_padroes ps t =
     find cnpj_aceito (map so_digitos (concat (map (\<lambda>p. findall flags_cnpj p t) ps)))"
proof (induction ps)
  case Nil
  show ?case by simp
next
  case (Cons p ps)
  show ?case
    by (simp add: Cons.IH percorre_matches_find find_concatenado split: option.splits)
qed

lemma extrair_cnpj_find:
  "extrair_cnpj texto = find cnpj_aceito (candidatos_cnpj texto)"
  by (simp add: extrair_cnpj_def candidatos_cnpj_def percorre_padroes_find)

lemma candidatos_cnpj_digitos:
  "c \<in> set (candidatos_cnpj texto) \<Longrightarrow> \<forall>d\<in>set c. py_isdigit d"
  by (auto simp: candidatos_cnpj_def so_digitos_filter)

text \<open>
  C2. Identifier extraction: a result that is present has exactly 14 characters, all of
  them digits, does not begin with "00000" and has two different digits; a candidate
  that fails this test is never the result; when no candidate passes, the result is
  \<open>None\<close>, and never the empty string.
\<close>

theorem extrair_cnpj_invariante:
  "(\<forall>c. extrair_cnpj texto = Some c \<longrightarrow>
        length c = 14 \<and> (\<forall>d\<in>set c. py_isdigit d) \<and> take 5 c \<noteq> ''00000'' \<and>
        (\<exists>d\<in>set c. d \<noteq> c ! 0) \<and> c \<noteq> [])
   \<and> ((\<forall>c\<in>set (candidatos_cnpj texto). \<not> cnpj_aceito c) \<longrightarrow> extrair_cnpj texto = None)"
proof -
  have "length c = 14 \<and> (\<forall>d\<in>set c. py_isdigit d) \<and> take 5 c \<noteq> ''00000'' \<and>
        (\<exists>d\<in>set c. d \<noteq> c ! 0) \<and> c \<noteq> []"
    if "extrair_cnpj texto = Some c" for c
  proof -
    from that have f: "find cnpj_aceito (candidatos_cnpj texto) = Some c"
      by (simp add: extrair_cnpj_find)
    then have a: "cnpj_aceito c" and m: "c \<in> set (candidatos_cnpj texto)"
      by (auto simp: find_Some_iff)
    from a have "length c = 14" "take 5 c \<noteq> ''00000''" "\<exists>d\<in>set c. d \<noteq> c ! 0"
      by (simp_all add: cnpj_aceito_iff)
    moreover from this have "c \<noteq> []" by auto
    ultimately show ?thesis using candidatos_cnpj_digitos [OF m] by blast
  qed
  moreover have "extrair_cnpj texto = None"
    if "\<forall>c\<in>set (candidatos_cnpj texto). \<not> cnpj_aceito c"
    using that by (simp add: extrair_cnpj_find find_None_iff)
  ultimately show ?thesis by blast
qed

theorem extrair_cnpj_invariante_witness:
  "extrair_cnpj ''CNPJ: 00.000.222/3333-44 CNPJ 11111111111111 CNPJ: 11.222.333/0001-81'' =
     Some ''11222333000181''
   \<and> length ''11222333000181'' = 14
   \<and> take 5 ''11222333000181'' \<noteq> ''00000''
   \<and> candidatos_cnpj ''CNPJ 11111111111111 e 00000222333344'' =
       [''11111111111111'', ''11111111111111'', ''11111111111111'', ''00000222333344'']
   \<and> \<not> cnpj_aceito ''11111111111111''
   \<and> \<not> cnpj_aceito ''00000222333344''
   \<and> extrair_cnpj ''CNPJ 11111111111111 e 00000222333344'' = None"
proof -
  have e: "extrair_cnpj ''CNPJ: 00.000.222/3333-44 CNPJ 11111111111111 CNPJ: 11.222.333/0001-81'' =
     Some ''11222333000181''"
    by code_simp
  have c: "candidatos_cnpj ''CNPJ 11111111111111 e 00000222333344'' =
       [''11111111111111'', ''11111111111111'', ''11111111111111'', ''00000222333344'']"
    by code_simp
  have n: "\<not> cnpj_aceito ''11111111111111''" "\<not> cnpj_aceito ''00000222333344''"
    by code_simp+
  from extrair_cnpj_invariante
         [of "''CNPJ: 00.000.222/3333-44 CNPJ 11111111111111 CNPJ: 11.222.333/0001-81''"]
       extrair_cnpj_invariante [of "''CNPJ 11111111111111 e 00000222333344''"] e c n
  show ?thesis by simp
qed

text \<open>
  C5. Identifier extraction: the result is the first accepted candidate, the candidates
  being taken pattern after pattern in the order of the list and, within a pattern,
  match after match; when none is accepted the result is \<open>None\<close>. So a candidate of
  an earlier pattern wins over a candidate of a later pattern that stands before it in
  the text.
\<close>

theorem extrair_cnpj_primeiro_aceito:
  "extrair_cnpj texto = find cnpj_aceito (candidatos_cnpj texto)
   \<and> (extrair_cnpj texto = None \<longleftrightarrow> (\<forall>c\<in>set (candidatos_cnpj texto). \<not> cnpj_aceito c))"
  by (auto simp: extrair_cnpj_find find_None_iff)

theorem extrair_cnpj_primeiro_aceito_witness:
  "candidatos_cnpj ''12.345.678/0001-90 CNPJ: 11.222.333/0001-81'' =
     [''11222333000181'', ''12345678000190'', ''11222333000181'']
   \<and> cnpj_aceito ''12345678000190''
   \<and> find cnpj_aceito (candidatos_cnpj ''12.345.678/0001-90 CNPJ: 11.222.333/0001-81'') =
       Some ''11222333000181''"
proof -
  have c: "candidatos_cnpj ''12.345.678/0001-90 CNPJ: 11.222.333/0001-81'' =
     [''11222333000181'', ''12345678000190'', ''11222333000181'']"
    by code_simp
  have a: "cnpj_aceito ''12345678000190''" by code_simp
  have e: "extrair_cnpj ''12.345.678/0001-90 CNPJ: 11.222.333/0001-81'' = Some ''11222333000181''"
    by code_simp
  from extrair_cnpj_primeiro_aceito [of "''12.345.678/0001-90 CNPJ: 11.222.333/0001-81''"] c a e
  show ?thesis by simp
qed


section \<open>Properties of the amount extraction\<close>

lemma processa_matches_eq:
  "processa_matches linha ms acc = acc @ List.map_filter (candidato linha) ms"
  by (induction ms arbitrary: acc) (auto simp: List.map_filter_simps split: option.splits)

lemma processa_padroes_eq:
  "processa_padroes linha ps acc =
     acc @ concat (map (\<lambda>padrao. List.map_filter (candidato linha)
                                   (findall flags_valor padrao linha)) ps)"
  by (induction ps arbitrary: acc) (auto simp: processa_matches_eq)

lemma processa_linhas_eq:
  "processa_linhas ls acc =
     acc @ concat (map candidatos_da_linha
                       (filter (\<lambda>linha. linha \<noteq> []) (map py_strip ls)))"
  by (induction ls arbitrary: acc)
     (auto simp: processa_padroes_eq candidatos_da_linha_def Let_def)

lemma processa_linhas_candidatos:
  "processa_linhas (split_lines texto) [] = candidatos texto"
  by (simp add: processa_linhas_eq candidatos_def)

lemma candidato_na_faixa:
  "candidato linha m = Some (v, p) \<Longrightarrow> 1 / 100 \<le> v \<and> v \<le> 99999999 / 100"
  by (auto simp: candidato_def split: option.splits if_splits)

lemma candidatos_na_faixa:
  assumes "(v, p) \<in> set (candidatos texto)"
  shows "1 / 100 \<le> v \<and> v \<le> 99999999 / 100"
proof -
  from assms obtain linha m where "candidato linha m = Some (v, p)"
    by (auto simp: candidatos_def candidatos_da_linha_def List.map_filter_def)
  then show ?thesis by (rule candidato_na_faixa)
qed

lemma ordena_reverso_primeiro:
  assumes "xs \<noteq> []"
  shows "ordena_reverso k xs ! 0 \<in> set xs \<and> (\<forall>x\<in>set xs. k x \<le> k (ordena_reverso k xs ! 0))"
proof -
  let ?ys = "sort_key k (rev xs)"
  have ne: "?ys \<noteq> []" using assms by (metis length_sort length_rev length_0_conv)
  have h: "ordena_reverso k xs ! 0 = last ?ys"
    using ne by (simp add: ordena_reverso_def hd_conv_nth [symmetric] hd_rev)
  have s: "set ?ys = set xs" by simp
  have m: "last ?ys \<in> set xs" using ne s last_in_set by blast
  have "k x \<le> k (last ?ys)" if "x \<in> set xs" for x
  proof -
    from that s obtain i where i: "i < length ?ys" and x: "?ys ! i = x"
      by (metis in_set_conv_nth)
    have "sorted (map k ?ys)" by (rule sorted_sort_key)
    then have "map k ?ys ! i \<le> map k ?ys ! (length ?ys - 1)"
      using i by (intro sorted_nth_mono) auto
    then show ?thesis using i x ne by (simp add: last_conv_nth)
  qed
  with h m show ?thesis by simp
qed

lemma extrair_valor_total_candidatos:
  "extrair_valor_total texto =
     (if candidatos texto = [] then 0
      else fst (ordena_reverso (\<lambda>x. (snd x, fst x)) (candidatos texto) ! 0))"
  by (simp add: extrair_valor_total_def processa_linhas_candidatos)

lemma extrair_valor_total_escolhido:
  assumes "candidatos texto \<noteq> []"
  shows "\<exists>peso. (extrair_valor_total texto, peso) \<in> set (candidatos texto) \<and>
           (\<forall>(v, p)\<in>set (candidatos texto).
              p < peso \<or> (p = peso \<and> v \<le> extrair_valor_total texto))"
proof -
  let ?k = "\<lambda>x::rat \<times> int. (snd x, fst x)"
  let ?y = "ordena_reverso ?k (candidatos texto) ! 0"
  from ordena_reverso_primeiro [OF assms, of ?k]
  have m: "?y \<in> set (candidatos texto)" and g: "\<forall>x\<in>set (candidatos texto). ?k x \<le> ?k ?y"
    by blast+
  have e: "extrair_valor_total texto = fst ?y"
    using assms by (simp add: extrair_valor_total_candidatos)
  have "(fst ?y, snd ?y) \<in> set (candidatos texto)" using m by simp
  moreover have "p < snd ?y \<or> (p = snd ?y \<and> v \<le> fst ?y)"
    if "(v, p) \<in> set (candidatos texto)" for v p
    using g that by (fastforce simp: less_eq_prod_def)
  ultimately show ?thesis unfolding e by blast
qed

text \<open>
  C1. Amount extraction: the list built by the loops holds the pairs of all matches of
  all patterns on all lines; when it is empty the result is 0, and otherwise the result
  is the value of a pair whose weight is the greatest and whose value is the greatest
  among the pairs of that weight.
\<close>

theorem extrair_valor_total_maior_peso:
  "processa_linhas (split_lines texto) [] = candidatos texto
   \<and> (candidatos texto = [] \<longrightarrow> extrair_valor_total texto = 0)
   \<and> (candidatos texto \<noteq> [] \<longrightarrow>
        (\<exists>peso. (extrair_valor_total texto, peso) \<in> set (candidatos texto) \<and>
           (\<forall>(v, p)\<in>set (candidatos texto).
              p < peso \<or> (p = peso \<and> v \<le> extrair_valor_total texto))))"
  using processa_linhas_candidatos [of texto] extrair_valor_total_escolhido [of texto]
  by (simp add: extrair_valor_total_candidatos)

theorem extrair_valor_total_maior_peso_witness:
  "candidatos (''cafe 5,00'' @ [CHR 0x0A] @ ''Total: R$ 45,90'' @ [CHR 0x0A] @ ''99,99'') =
     [(5, 4), (5, 4), (459 / 10, 19), (459 / 10, 19), (459 / 10, 19), (459 / 10, 19),
      (459 / 10, 19), (9999 / 100, 4), (9999 / 100, 4)]
   \<and> extrair_valor_total (''cafe 5,00'' @ [CHR 0x0A] @ ''Total: R$ 45,90'' @ [CHR 0x0A] @ ''99,99'') =
       459 / 10
   \<and> candidatos ''sem valores'' = []
   \<and> extrair_valor_total ''sem valores'' = 0"
proof -
  let ?t = "''cafe 5,00'' @ [CHR 0x0A] @ ''Total: R$ 45,90'' @ [CHR 0x0A] @ ''99,99''"
  have p: "processa_linhas (split_lines ?t) [] =
     [(5, 4), (5, 4), (459 / 10, 19), (459 / 10, 19), (459 / 10, 19), (459 / 10, 19),
      (459 / 10, 19), (9999 / 100, 4), (9999 / 100, 4)]"
    by code_simp
  have v: "extrair_valor_total ?t = 459 / 10" by code_simp
  have q: "processa_linhas (split_lines ''sem valores'') [] = []" by code_simp
  from extrair_valor_total_maior_peso [of ?t]
       extrair_valor_total_maior_peso [of "''sem valores''"] p v q
  show ?thesis by simp
qed

text \<open>
  C6. Amount extraction: every candidate lies between 0.01 and 999999.99, so the result
  is 0 or lies in that range, and is never negative.
\<close>

theorem extrair_valor_total_na_faixa:
  "(extrair_valor_total texto = 0 \<or>
      (1 / 100 \<le> extrair_valor_total texto \<and> extrair_valor_total texto \<le> 99999999 / 100))
   \<and> 0 \<le> extrair_valor_total texto
   \<and> (\<forall>(v, p)\<in>set (candidatos texto). 1 / 100 \<le> v \<and> v \<le> 99999999 / 100)
   \<and> (\<forall>linha m v. py_float (valor_str_de m) = Some v \<and> (v < 1 / 100 \<or> 99999999 / 100 < v)
         \<longrightarrow> candidato linha m = None)"
proof -
  have a: "\<forall>(v, p)\<in>set (candidatos texto). 1 / 100 \<le> v \<and> v \<le> 99999999 / 100"
    using candidatos_na_faixa by blast
  have b: "extrair_valor_total texto = 0 \<or>
      (1 / 100 \<le> extrair_valor_total texto \<and> extrair_valor_total texto \<le> 99999999 / 100)"
  proof (cases "candidatos texto = []")
    case True
    then show ?thesis by (simp add: extrair_valor_total_candidatos)
  next
    case False
    from extrair_valor_total_escolhido [OF this] obtain peso
      where "(extrair_valor_total texto, peso) \<in> set (candidatos texto)" by blast
    then show ?thesis using candidatos_na_faixa by blast
  qed
  then have c: "0 \<le> extrair_valor_total texto" by auto
  have d: "\<forall>linha m v. py_float (valor_str_de m) = Some v \<and> (v < 1 / 100 \<or> 99999999 / 100 < v)
         \<longrightarrow> candidato linha m = None"
    by (auto simp: candidato_def)
  from a b c d show ?thesis by blast
qed

theorem extrair_valor_total_na_faixa_witness:
  "extrair_valor_total ''TOTAL 99999999'' = 0
   \<and> py_float (valor_str_de ''99999999'') = Some 99999999
   \<and> candidato ''TOTAL 99999999'' ''99999999'' = None
   \<and> extrair_valor_total ''TOTAL 0,01'' = 1 / 100"
proof -
  have a: "extrair_valor_total ''TOTAL 99999999'' = 0" by code_simp
  have b: "py_float (valor_str_de ''99999999'') = Some 99999999" by code_simp
  have c: "extrair_valor_total ''TOTAL 0,01'' = 1 / 100" by code_simp
  from extrair_valor_total_na_faixa [of "''TOTAL 99999999''"] a b c
  show ?thesis by simp
qed


section \<open>Properties of the registry lookup\<close>

text \<open>
  C8. Registry lookup: a response whose status is not 200 gives \<open>None\<close>, a transport
  error (\<open>RequestException\<close>) gives \<open>None\<close>, neither leaves the function as an
  exception, and a response with status 200 gives the record that it carries.
\<close>

theorem consultar_cnpj_brasilapi_ausencia:
  "(get (''https://brasilapi.com.br/api/cnpj/v1/'' @ numero) = Inr r \<and> status_code r \<noteq> 200
      \<longrightarrow> consultar_cnpj_brasilapi get numero = Inr None)
   \<and> (get (''https://brasilapi.com.br/api/cnpj/v1/'' @ numero) = Inl RequestException
      \<longrightarrow> consultar_cnpj_brasilapi get numero = Inr None)
   \<and> (get (''https://brasilapi.com.br/api/cnpj/v1/'' @ numero) = Inr r \<and> status_code r = 200
        \<and> json r = Inr dados
      \<longrightarrow> consultar_cnpj_brasilapi get numero = Inr (Some dados))"
  by (simp add: consultar_cnpj_brasilapi_def)

theorem consultar_cnpj_brasilapi_ausencia_witness:
  "consultar_cnpj_brasilapi
     (\<lambda>url. Inr \<lparr>status_code = 404, json = Inl OutraExcecao\<rparr>) ''11222333000181'' = Inr None
   \<and> consultar_cnpj_brasilapi (\<lambda>url. Inl RequestException) ''11222333000181'' = Inr None
   \<and> consultar_cnpj_brasilapi
       (\<lambda>url. Inr \<lparr>status_code = 200, json = Inr [(''razao_social'', ''ACME LTDA'')]\<rparr>)
       ''11222333000181'' = Inr (Some [(''razao_social'', ''ACME LTDA'')])"
  using consultar_cnpj_brasilapi_ausencia
          [of "\<lambda>url. Inr \<lparr>status_code = 404, json = Inl OutraExcecao\<rparr>" "''11222333000181''"
              "\<lparr>status_code = 404, json = Inl OutraExcecao\<rparr>"]
        consultar_cnpj_brasilapi_ausencia
          [of "\<lambda>url. Inl RequestException" "''11222333000181''"]
        consultar_cnpj_brasilapi_ausencia
          [of "\<lambda>url. Inr \<lparr>status_code = 200, json = Inr [(''razao_social'', ''ACME LTDA'')]\<rparr>"
              "''11222333000181''"
              "\<lparr>status_code = 200, json = Inr [(''razao_social'', ''ACME LTDA'')]\<rparr>"
              "[(''razao_social'', ''ACME LTDA'')]"]
  by simp

section \<open>Properties of the batch loop\<close>

lemma laco_canhotos_map:
  "laco_canhotos sv region imagens resultados =
     resultados @ map (registro_da_imagem sv region) imagens"
  by (induction imagens arbitrary: resultados)
     (auto simp: registro_da_imagem_def split: sum.splits)

lemma processar_canhotos_map:
  "processar_canhotos sv imagens region = map (registro_da_imagem sv region) imagens"
  by (simp add: processar_canhotos_def laco_canhotos_map)

text \<open>
  C7. Batch loop: when the processing of an image raises, the record appended for it
  has amount 0, no identifier, category \<open>Outros\<close> and the error markers, the records
  of the images before it are kept, the images after it are processed, and there is one
  record for each image.
\<close>

theorem processar_canhotos_isola_falha:
  assumes "processar_imagem sv region x = Inl e"
  shows "processar_canhotos sv (antes @ x # depois) region =
           processar_canhotos sv antes region @ [registro_de_erro x] @
           processar_canhotos sv depois region
       \<and> valor (registro_de_erro x) = 0
       \<and> cnpj (registro_de_erro x) = None
       \<and> categoria (registro_de_erro x) = ''Outros''
       \<and> empresa (registro_de_erro x) = ''Erro no processamento''
       \<and> atividade (registro_de_erro x) = ''Erro''
       \<and> length (processar_canhotos sv (antes @ x # depois) region) =
           length (antes @ x # depois)"
  using assms
  by (simp add: processar_canhotos_map registro_da_imagem_def registro_de_erro_def)

theorem processar_canhotos_isola_falha_witness:
  "processar_imagem servicos_exemplo ''us-east-1'' ''canhotos/b.png'' = Inl OutraExcecao
   \<and> processar_canhotos servicos_exemplo
        ([''canhotos/a.jpg''] @ ''canhotos/b.png'' # [''canhotos/c.jpg'']) ''us-east-1'' =
       processar_canhotos servicos_exemplo [''canhotos/a.jpg''] ''us-east-1'' @
       [registro_de_erro ''canhotos/b.png''] @
       processar_canhotos servicos_exemplo [''canhotos/c.jpg''] ''us-east-1''
   \<and> valor (registro_de_erro ''canhotos/b.png'') = 0
   \<and> categoria (registro_de_erro ''canhotos/b.png'') = ''Outros''"
proof -
  have h: "processar_imagem servicos_exemplo ''us-east-1'' ''canhotos/b.png'' = Inl OutraExcecao"
    by code_simp
  from processar_canhotos_isola_falha
         [OF h, of "[''canhotos/a.jpg'']" "[''canhotos/c.jpg'']"] h
  show ?thesis by blast
qed


section \<open>Properties of the reports\<close>

lemma py_max_Max: "py_max vs = Max (set vs)" if "vs \<noteq> []"
proof (cases vs)
  case Nil
  then show ?thesis using that by simp
next
  case (Cons v vs')
  have "Max (set (v # vs')) = fold max vs' v" by (rule Max.set_eq_fold)
  then show ?thesis using Cons by (simp del: set_simps)
qed

lemma linhas_das_categorias_Inr:
  "linhas_das_categorias t vm xs = Inr ls \<Longrightarrow>
     ls = map (\<lambda>(c, v). \<lparr>categoria_l = c, valor_l = v,
                          percentual_l = fmul (fdiv v t) 100,
                          tamanho_barra = py_int (fmul (fdiv v vm) 30)\<rparr>) xs"
proof (induction xs arbitrary: ls)
  case Nil
  then show ?case by simp
next
  case (Cons x xs)
  obtain c v where x: "x = (c, v)" by (cases x)
  from Cons.prems x obtain ls' where
    r: "linhas_das_categorias t vm xs = Inr ls'" and
    l: "ls = \<lparr>categoria_l = c, valor_l = v, percentual_l = fmul (fdiv v t) 100,
               tamanho_barra = py_int (fmul (fdiv v vm) 30)\<rparr> # ls'"
    by (auto simp: Let_def split: if_splits sum.splits)
  from Cons.IH [OF r] l x show ?case by simp
qed

lemma linhas_do_console_map:
  "linhas_do_console t xs =
     map (\<lambda>(c, v). \<lparr>categoria_l = c, valor_l = v,
                      percentual_l = fmul (fdiv v t) 100,
                      tamanho_barra = py_int (fdiv (fmul (fdiv v t) 100) (dbl (333 / 100)))\<rparr>)
         (filter (\<lambda>(c, v). 0 < v) xs)"
  by (induction t xs rule: linhas_do_console.induct) (auto simp: Let_def)

text \<open>The dictionary after the loop: its keys, in order, and its values.\<close>

lemma chaves_soma_na_categoria:
  "map fst (soma_na_categoria c v g) =
     (if c \<in> set (map fst g) then map fst g else map fst g @ [c])"
  by (induction g) (force simp: image_iff)+

lemma valor_em_soma_na_categoria:
  "valor_em (soma_na_categoria c v g) c' =
     (if c' = c then fadd (valor_em g c) v else valor_em g c')"
  by (induction g) (auto simp: valor_em_def)

lemma agrupa_foldl:
  "agrupa rs (g, t) =
     (foldl (\<lambda>g r. soma_na_categoria (categoria r) (dbl (valor r)) g) g rs,
      foldl fadd t (map (\<lambda>r. dbl (valor r)) rs))"
  by (induction rs arbitrary: g t) auto

lemma chaves_em_ordem:
  "foldl (\<lambda>ks c. if c \<in> set ks then ks else ks @ [c]) ks cs =
     ks @ filter (\<lambda>x. x \<notin> set ks) (primeiras cs)"
proof (induction cs arbitrary: ks)
  case Nil
  show ?case by simp
next
  case (Cons c cs)
  show ?case
  proof (cases "c \<in> set ks")
    case True
    have "filter (\<lambda>x. x \<notin> set ks) (filter (\<lambda>x. x \<noteq> c) (primeiras cs)) =
          filter (\<lambda>x. x \<notin> set ks) (primeiras cs)"
      using True by (auto intro: filter_cong)
    with True Cons.IH [of ks] show ?thesis by simp
  next
    case False
    have "filter (\<lambda>x. x \<notin> set (ks @ [c])) (primeiras cs) =
          filter (\<lambda>x. x \<notin> set ks) (filter (\<lambda>x. x \<noteq> c) (primeiras cs))"
      by (auto intro: filter_cong)
    with False Cons.IH [of "ks @ [c]"] show ?thesis by simp
  qed
qed

lemma chaves_do_laco:
  "map fst (foldl (\<lambda>g r. soma_na_categoria (categoria r) (dbl (valor r)) g) g rs) =
     foldl (\<lambda>ks c. if c \<in> set ks then ks else ks @ [c]) (map fst g) (map categoria rs)"
  by (induction rs arbitrary: g) (simp_all add: chaves_soma_na_categoria)

lemma valores_do_laco:
  "valor_em (foldl (\<lambda>g r. soma_na_categoria (categoria r) (dbl (valor r)) g) g rs) c =
     foldl fadd (valor_em g c)
       (map (\<lambda>r. dbl (valor r)) (filter (\<lambda>r. categoria r = c) rs))"
  by (induction rs arbitrary: g) (simp_all add: valor_em_soma_na_categoria)

lemma distinct_primeiras: "distinct (primeiras cs)"
  by (induction cs) (auto simp: distinct_filter)

lemma dicionario_por_chaves:
  "distinct (map fst g) \<Longrightarrow> g = map (\<lambda>c. (c, valor_em g c)) (map fst g)"
proof (induction g)
  case Nil
  show ?case by simp
next
  case (Cons x g)
  obtain c v where x: "x = (c, v)" by (cases x)
  from Cons.prems x have nc: "c \<notin> fst ` set g" and d: "distinct (map fst g)" by auto
  have "valor_em (x # g) c' = valor_em g c'" if "c' \<in> fst ` set g" for c'
    using that nc x by (auto simp: valor_em_def)
  then have "map (\<lambda>c. (c, valor_em (x # g) c)) (map fst g) =
             map (\<lambda>c. (c, valor_em g c)) (map fst g)"
    by auto
  with Cons.IH [OF d] x show ?case by (simp add: valor_em_def)
qed

lemma agrupa_totais:
  "agrupa rs ([], 0) =
     (map (\<lambda>c. (c, total_da_categoria c rs)) (primeiras (map categoria rs)),
      soma_esquerda (map (\<lambda>r. dbl (valor r)) rs))"
proof -
  let ?g = "foldl (\<lambda>g r. soma_na_categoria (categoria r) (dbl (valor r)) g) [] rs"
  have k: "map fst ?g = primeiras (map categoria rs)"
    using chaves_do_laco [of "[]" rs] chaves_em_ordem [of "[]" "map categoria rs"]
    by simp
  then have d: "distinct (map fst ?g)" by (simp add: distinct_primeiras)
  have v: "valor_em ?g c = total_da_categoria c rs" for c
    using valores_do_laco [of "[]" rs c]
    by (simp add: total_da_categoria_def soma_esquerda_def valor_em_def)
  from dicionario_por_chaves [OF d] k v
  have "?g = map (\<lambda>c. (c, total_da_categoria c rs)) (primeiras (map categoria rs))"
    by simp
  then show ?thesis by (simp add: agrupa_foldl soma_esquerda_def)
qed

text \<open>
  C9, as amended. In the categories report the lines are the categories by decreasing
  total, and the bar of a category has \<open>int((valor / valor_maximo) * 30)\<close> characters,
  where \<open>valor_maximo\<close> is the greatest total. In the console report the grand total
  is the sum of the amounts; the lines are the categories whose total is positive, by
  decreasing total, the total of a category being the sum of the amounts of its
  records; and the bar of a category has \<open>int(percentual / 3.33)\<close> characters, where
  \<open>percentual\<close> is \<open>(valor / total_geral) * 100\<close>. Every operation is the one on
  doubles.
\<close>

theorem barras_dos_relatorios:
  "(gerar_relatorio_categorias py_sum gastos = Inr (Relatorio tg ls) \<longrightarrow>
      tg = py_sum (map snd (map (\<lambda>(c, v). (c, dbl v)) gastos)) \<and>
      ls = map (\<lambda>(c, v). \<lparr>categoria_l = c, valor_l = v,
                  percentual_l = fmul (fdiv v tg) 100,
                  tamanho_barra =
                    py_int (fmul (fdiv v
                      (Max (set (map snd (map (\<lambda>(c, v). (c, dbl v)) gastos))))) 30)\<rparr>)
             (ordena_reverso snd (map (\<lambda>(c, v). (c, dbl v)) gastos)))
   \<and> gerar_relatorio resultados =
       (let tg' = soma_esquerda (map (\<lambda>r. dbl (valor r)) resultados)
        in (tg',
            if 0 < tg' then
              map (\<lambda>(c, v). \<lparr>categoria_l = c, valor_l = v,
                     percentual_l = fmul (fdiv v tg') 100,
                     tamanho_barra =
                       py_int (fdiv (fmul (fdiv v tg') 100) (dbl (333 / 100)))\<rparr>)
                (filter (\<lambda>(c, v). 0 < v)
                   (ordena_reverso snd
                      (map (\<lambda>c. (c, total_da_categoria c resultados))
                           (primeiras (map categoria resultados)))))
            else []))"
proof -
  let ?G = "map (\<lambda>(c, v). (c, dbl v)) gastos"
  have a: "tg = py_sum (map snd ?G) \<and>
      ls = map (\<lambda>(c, v). \<lparr>categoria_l = c, valor_l = v,
                  percentual_l = fmul (fdiv v tg) 100,
                  tamanho_barra = py_int (fmul (fdiv v (Max (set (map snd ?G)))) 30)\<rparr>)
             (ordena_reverso snd ?G)"
    if g: "gerar_relatorio_categorias py_sum gastos = Inr (Relatorio tg ls)"
  proof -
    from g have ne: "?G \<noteq> []"
      by (auto simp: gerar_relatorio_categorias_def Let_def split: if_splits)
    let ?vm = "py_max (map snd ?G)"
    from g ne have t: "tg = py_sum (map snd ?G)" and
      l: "linhas_das_categorias tg ?vm (ordena_reverso snd ?G) = Inr ls"
      by (auto simp: gerar_relatorio_categorias_def Let_def split: sum.splits if_splits)
    from ne have "map snd ?G \<noteq> []" by simp
    then have vm: "?vm = Max (set (map snd ?G))" by (rule py_max_Max)
    from linhas_das_categorias_Inr [OF l] have
      "ls = map (\<lambda>(c, v). \<lparr>categoria_l = c, valor_l = v,
                  percentual_l = fmul (fdiv v tg) 100,
                  tamanho_barra = py_int (fmul (fdiv v ?vm) 30)\<rparr>)
             (ordena_reverso snd ?G)" .
    then have "ls = map (\<lambda>(c, v). \<lparr>categoria_l = c, valor_l = v,
                  percentual_l = fmul (fdiv v tg) 100,
                  tamanho_barra = py_int (fmul (fdiv v (Max (set (map snd ?G)))) 30)\<rparr>)
             (ordena_reverso snd ?G)"
      unfolding vm .
    with t show ?thesis by (rule conjI)
  qed
  have b: "gerar_relatorio resultados =
       (let tg' = soma_esquerda (map (\<lambda>r. dbl (valor r)) resultados)
        in (tg',
            if 0 < tg' then
              map (\<lambda>(c, v). \<lparr>categoria_l = c, valor_l = v,
                     percentual_l = fmul (fdiv v tg') 100,
                     tamanho_barra =
                       py_int (fdiv (fmul (fdiv v tg') 100) (dbl (333 / 100)))\<rparr>)
                (filter (\<lambda>(c, v). 0 < v)
                   (ordena_reverso snd
                      (map (\<lambda>c. (c, total_da_categoria c resultados))
                           (primeiras (map categoria resultados)))))
            else []))"
    by (simp add: gerar_relatorio_def agrupa_totais linhas_do_console_map Let_def)
  from a b show ?thesis by blast
qed

theorem barras_dos_relatorios_witness:
  "gerar_relatorio_categorias soma_esquerda [(''Hospedagem'', 12 / 10), (''Transporte'', 15 / 10)] =
     Inr (Relatorio (fadd (fadd 0 (dbl (12 / 10))) (dbl (15 / 10)))
       [\<lparr>categoria_l = ''Transporte'', valor_l = dbl (15 / 10),
          percentual_l =
            fmul (fdiv (dbl (15 / 10)) (fadd (fadd 0 (dbl (12 / 10))) (dbl (15 / 10)))) 100,
          tamanho_barra = 30\<rparr>,
        \<lparr>categoria_l = ''Hospedagem'', valor_l = dbl (12 / 10),
          percentual_l =
            fmul (fdiv (dbl (12 / 10)) (fadd (fadd 0 (dbl (12 / 10))) (dbl (15 / 10)))) 100,
          tamanho_barra = 23\<rparr>])
   \<and> py_int (fmul (fdiv (dbl (12 / 10))
         (Max (set (map snd (map (\<lambda>(c, v). (c, dbl v))
            [(''Hospedagem'', 12 / 10), (''Transporte'', 15 / 10)]))))) 30) = 23
   \<and> map tamanho_barra
         (snd (gerar_relatorio
            [registro_exemplo ''Hospedagem'' (333 / 10),
             registro_exemplo ''Transporte'' (667 / 10)])) = [20, 9]
   \<and> snd (gerar_relatorio
         [registro_exemplo ''Hospedagem'' (333 / 10),
          registro_exemplo ''Transporte'' (667 / 10)]) =
       map (\<lambda>(c, v). \<lparr>categoria_l = c, valor_l = v,
              percentual_l = fmul (fdiv v 100) 100,
              tamanho_barra = py_int (fdiv (fmul (fdiv v 100) 100) (dbl (333 / 100)))\<rparr>)
         [(''Transporte'', dbl (667 / 10)), (''Hospedagem'', dbl (333 / 10))]"
proof -
  let ?g = "[(''Hospedagem'', 12 / 10 :: rat), (''Transporte'', 15 / 10)]"
  let ?t = "fadd (fadd 0 (dbl (12 / 10))) (dbl (15 / 10))"
  let ?l = "[\<lparr>categoria_l = ''Transporte'', valor_l = dbl (15 / 10),
          percentual_l = fmul (fdiv (dbl (15 / 10)) ?t) 100, tamanho_barra = 30\<rparr>,
        \<lparr>categoria_l = ''Hospedagem'', valor_l = dbl (12 / 10),
          percentual_l = fmul (fdiv (dbl (12 / 10)) ?t) 100, tamanho_barra = 23\<rparr>]"
  let ?rs = "[registro_exemplo ''Hospedagem'' (333 / 10),
              registro_exemplo ''Transporte'' (667 / 10)]"
  have a: "gerar_relatorio_categorias soma_esquerda ?g = Inr (Relatorio ?t ?l)"
    by code_simp
  have o: "ordena_reverso snd (map (\<lambda>(c, v). (c, dbl v)) ?g) =
             [(''Transporte'', dbl (15 / 10)), (''Hospedagem'', dbl (12 / 10))]"
    by code_simp
  have s: "soma_esquerda (map (\<lambda>r. dbl (valor r)) ?rs) = 100" by code_simp
  have f: "filter (\<lambda>(c, v). 0 < v)
             (ordena_reverso snd
                (map (\<lambda>c. (c, total_da_categoria c ?rs)) (primeiras (map categoria ?rs)))) =
           [(''Transporte'', dbl (667 / 10)), (''Hospedagem'', dbl (333 / 10))]"
    by code_simp
  have b: "map tamanho_barra (snd (gerar_relatorio ?rs)) = [20, 9]" by code_simp
  from barras_dos_relatorios [of soma_esquerda ?g ?t ?l ?rs] a
  have c: "?l = map (\<lambda>(c, v). \<lparr>categoria_l = c, valor_l = v,
                  percentual_l = fmul (fdiv v ?t) 100,
                  tamanho_barra =
                    py_int (fmul (fdiv v
                      (Max (set (map snd (map (\<lambda>(c, v). (c, dbl v)) ?g))))) 30)\<rparr>)
             (ordena_reverso snd (map (\<lambda>(c, v). (c, dbl v)) ?g))"
    and d: "gerar_relatorio ?rs =
       (let tg' = soma_esquerda (map (\<lambda>r. dbl (valor r)) ?rs)
        in (tg',
            if 0 < tg' then
              map (\<lambda>(c, v). \<lparr>categoria_l = c, valor_l = v,
                     percentual_l = fmul (fdiv v tg') 100,
                     tamanho_barra =
                       py_int (fdiv (fmul (fdiv v tg') 100) (dbl (333 / 100)))\<rparr>)
                (filter (\<lambda>(c, v). 0 < v)
                   (ordena_reverso snd
                      (map (\<lambda>c. (c, total_da_categoria c ?rs))
                           (primeiras (map categoria ?rs)))))
            else []))"
    by blast+
  from c have e: "py_int (fmul (fdiv (dbl (12 / 10))
         (Max (set (map snd (map (\<lambda>(c, v). (c, dbl v)) ?g))))) 30) = 23"
    unfolding o by simp
  from d have h: "snd (gerar_relatorio ?rs) =
       map (\<lambda>(c, v). \<lparr>categoria_l = c, valor_l = v,
              percentual_l = fmul (fdiv v 100) 100,
              tamanho_barra = py_int (fdiv (fmul (fdiv v 100) 100) (dbl (333 / 100)))\<rparr>)
         [(''Transporte'', dbl (667 / 10)), (''Hospedagem'', dbl (333 / 10))]"
    unfolding s f Let_def by simp
  from a e b h show ?thesis by blast
qed

theorem barras_counterexample:
  "map tamanho_barra
     (snd (gerar_relatorio
        [registro_exemplo ''Hospedagem'' 10, registro_exemplo ''Hospedagem'' 5,
         registro_exemplo ''Transporte'' 15])) = [15, 15]
   \<and> map valor_l
     (snd (gerar_relatorio
        [registro_exemplo ''Hospedagem'' 10, registro_exemplo ''Hospedagem'' 5,
         registro_exemplo ''Transporte'' 15])) = [15, 15]
   \<and> py_int (fmul (fdiv 15 (max 15 15)) 30) = 30
   \<and> gerar_relatorio_categorias soma_esquerda [(''Hospedagem'', 15), (''Transporte'', 15)] =
       Inr (Relatorio 30
         [\<lparr>categoria_l = ''Hospedagem'', valor_l = 15, percentual_l = 50, tamanho_barra = 30\<rparr>,
          \<lparr>categoria_l = ''Transporte'', valor_l = 15, percentual_l = 50, tamanho_barra = 30\<rparr>])"
  by code_simp

section \<open>The tokens that the amount patterns can match\<close>

lemma run_Cat_iff:
  "m' \<in> set (run fl t (Cat r1 r2) m) \<longleftrightarrow>
     (\<exists>m1\<in>set (run fl t r1 m). m' \<in> set (run fl t r2 m1))"
  by auto

lemma run_grupo:
  "m' \<in> set (run fl t r m) \<Longrightarrow>
     grupo m' = grupo m \<or>
     (\<exists>body\<in>set (corpos r). \<exists>m0 m1. m1 \<in> set (run fl t body m0) \<and>
        grupo m' = Some (posicao m0, posicao m1))"
proof (induction r arbitrary: m m')
  case (Cat r1 r2)
  from Cat.prems obtain m1 where
    a: "m1 \<in> set (run fl t r1 m)" and b: "m' \<in> set (run fl t r2 m1)"
    by auto
  from Cat.IH(2) [OF b] show ?case
  proof
    assume e: "grupo m' = grupo m1"
    from Cat.IH(1) [OF a] show ?thesis
    proof
      assume "grupo m1 = grupo m"
      with e show ?thesis by simp
    next
      assume "\<exists>body\<in>set (corpos r1). \<exists>m0 m2. m2 \<in> set (run fl t body m0) \<and>
                grupo m1 = Some (posicao m0, posicao m2)"
      then obtain body m0 m2 where "body \<in> set (corpos r1)"
        "m2 \<in> set (run fl t body m0)" "grupo m1 = Some (posicao m0, posicao m2)"
        by blast
      with e have "body \<in> set (corpos (Cat r1 r2)) \<and> m2 \<in> set (run fl t body m0) \<and>
                grupo m' = Some (posicao m0, posicao m2)"
        by simp
      then show ?thesis by blast
    qed
  next
    assume "\<exists>body\<in>set (corpos r2). \<exists>m0 m2. m2 \<in> set (run fl t body m0) \<and>
              grupo m' = Some (posicao m0, posicao m2)"
    then obtain body m0 m2 where "body \<in> set (corpos r2)"
      "m2 \<in> set (run fl t body m0)" "grupo m' = Some (posicao m0, posicao m2)"
      by blast
    then have "body \<in> set (corpos (Cat r1 r2)) \<and> m2 \<in> set (run fl t body m0) \<and>
              grupo m' = Some (posicao m0, posicao m2)"
      by simp
    then show ?thesis by blast
  qed
next
  case (Or r1 r2)
  from Or.prems have "m' \<in> set (run fl t r1 m) \<or> m' \<in> set (run fl t r2 m)" by auto
  then show ?case
  proof
    assume "m' \<in> set (run fl t r1 m)"
    from Or.IH(1) [OF this] show ?thesis
    proof
      assume "grupo m' = grupo m"
      then show ?thesis by simp
    next
      assume "\<exists>body\<in>set (corpos r1). \<exists>m0 m2. m2 \<in> set (run fl t body m0) \<and>
                grupo m' = Some (posicao m0, posicao m2)"
      then obtain body m0 m2 where "body \<in> set (corpos r1)"
        "m2 \<in> set (run fl t body m0)" "grupo m' = Some (posicao m0, posicao m2)"
        by blast
      then have "body \<in> set (corpos (Or r1 r2)) \<and> m2 \<in> set (run fl t body m0) \<and>
                grupo m' = Some (posicao m0, posicao m2)"
        by simp
      then show ?thesis by blast
    qed
  next
    assume "m' \<in> set (run fl t r2 m)"
    from Or.IH(2) [OF this] show ?thesis
    proof
      assume "grupo m' = grupo m"
      then show ?thesis by simp
    next
      assume "\<exists>body\<in>set (corpos r2). \<exists>m0 m2. m2 \<in> set (run fl t body m0) \<and>
                grupo m' = Some (posicao m0, posicao m2)"
      then obtain body m0 m2 where "body \<in> set (corpos r2)"
        "m2 \<in> set (run fl t body m0)" "grupo m' = Some (posicao m0, posicao m2)"
        by blast
      then have "body \<in> set (corpos (Or r1 r2)) \<and> m2 \<in> set (run fl t body m0) \<and>
                grupo m' = Some (posicao m0, posicao m2)"
        by simp
      then show ?thesis by blast
    qed
  qed
next
  case (Group r)
  from Group.prems obtain m1 where
    "m1 \<in> set (run fl t r m)" and "m' = m1\<lparr>grupo := Some (posicao m, posicao m1)\<rparr>"
    by auto
  then show ?case by auto
qed (auto simp: Let_def split: if_splits)

lemma findall_de_origem:
  "x \<in> set (findall_de fl r t i) \<Longrightarrow>
     \<exists>j m. m \<in> set (run fl t r (comeca j)) \<and> x = texto_do_grupo t m"
proof (induction fl r t i rule: findall_de.induct)
  case (1 fl r t i)
  show ?case
  proof (cases "length t < i")
    case True
    with "1.prems" show ?thesis by (simp add: findall_de.simps [of fl r t i])
  next
    case False
    show ?thesis
    proof (cases "run fl t r (comeca i)")
      case Nil
      with False "1.prems" have "x \<in> set (findall_de fl r t (Suc i))"
        by (simp add: findall_de.simps [of fl r t i])
      with "1.IH"(1) [OF False Nil] show ?thesis .
    next
      case (Cons m ms)
      let ?n = "if posicao m \<le> i then Suc i else posicao m"
      from False Cons "1.prems"
      have "x = texto_do_grupo t m \<or> x \<in> set (findall_de fl r t ?n)"
        by (simp add: findall_de.simps [of fl r t i])
      then show ?thesis
      proof
        assume "x = texto_do_grupo t m"
        moreover have "m \<in> set (run fl t r (comeca i))" using Cons by simp
        ultimately show ?thesis by blast
      next
        assume "x \<in> set (findall_de fl r t ?n)"
        with "1.IH"(2) [OF False Cons] show ?thesis .
      qed
    qed
  qed
qed

lemma run_Rep_trecho:
  assumes "m' \<in> set (run fl t (Rep a lo hi) m)"
  shows "\<exists>j. posicao m' = posicao m + j \<and> lo \<le> j \<and> (\<forall>h. hi = Some h \<longrightarrow> j \<le> h) \<and>
             (\<forall>k<j. atom_match (ignorecase fl) a (t ! (posicao m + k)))"
proof -
  let ?P = "atom_match (ignorecase fl) a"
  let ?w = "takeWhile ?P (drop (posicao m) t)"
  let ?k = "quantos (ignorecase fl) a hi t (posicao m)"
  from assms obtain j where j: "lo \<le> j" "j \<le> ?k" and p: "posicao m' = posicao m + j"
    by (auto simp: Let_def)
  have kw: "?k \<le> length ?w" and kh: "\<forall>h. hi = Some h \<longrightarrow> ?k \<le> h"
    by (auto simp: quantos_def Let_def split: option.splits)
  have wl: "length ?w \<le> length (drop (posicao m) t)" by (rule length_takeWhile_le)
  have a: "?P (t ! (posicao m + k))" if "k < j" for k
  proof -
    from that j kw have kk: "k < length ?w" by simp
    then have "?w ! k = drop (posicao m) t ! k" by (rule takeWhile_nth)
    moreover have "?P (?w ! k)" using kk by (meson nth_mem set_takeWhileD)
    moreover have "posicao m + k < length t" using kk wl by simp
    ultimately show ?thesis by simp
  qed
  from j p kh a show ?thesis by (meson le_trans)
qed

lemma um_separador_conjunto:
  assumes u: "um_separador t a b"
    and x: "x \<in> set (take (b - a) (drop a t))" and y: "y \<in> set (take (b - a) (drop a t))"
    and nx: "\<not> py_isdigit x" and ny: "\<not> py_isdigit y"
  shows "x = y"
proof -
  from u obtain p q where pq: "a \<le> p" "p \<le> q" "q \<le> b" "q \<le> Suc p"
    and d1: "\<forall>k. a \<le> k \<and> k < p \<longrightarrow> py_isdigit (t ! k)"
    and d2: "\<forall>k. q \<le> k \<and> k < b \<longrightarrow> py_isdigit (t ! k)"
    unfolding um_separador_def by blast
  have pos: "\<exists>k. a \<le> k \<and> k < b \<and> z = t ! k"
    if "z \<in> set (take (b - a) (drop a t))" for z
  proof -
    from that obtain i where i: "i < length (take (b - a) (drop a t))"
      and z: "take (b - a) (drop a t) ! i = z"
      by (auto simp: in_set_conv_nth)
    from i have "i < b - a" "a + i < length t" by auto
    with z have "z = t ! (a + i)" by simp
    with \<open>i < b - a\<close> show ?thesis by (intro exI [of _ "a + i"]) auto
  qed
  from pos [OF x] obtain k1 where k1: "a \<le> k1" "k1 < b" "x = t ! k1" by blast
  from pos [OF y] obtain k2 where k2: "a \<le> k2" "k2 < b" "y = t ! k2" by blast
  from k1 nx d1 d2 have "p \<le> k1 \<and> k1 < q" by (metis not_le_imp_less)
  moreover from k2 ny d1 d2 have "p \<le> k2 \<and> k2 < q" by (metis not_le_imp_less)
  ultimately have "k1 = k2" using pq by linarith
  with k1 k2 show ?thesis by simp
qed

lemma digitos_separador_digitos:
  assumes x: "\<And>m m'. m' \<in> set (run fl t X m) \<Longrightarrow>
                posicao m \<le> posicao m' \<and> posicao m' \<le> Suc (posicao m)"
    and r: "m1 \<in> set (run fl t (Cat (Rep (One D) lo1 hi1)
                                  (Cat X (Cat (Rep (One D) lo2 hi2) Eps))) m0)"
  shows "um_separador t (posicao m0) (posicao m1)"
proof -
  from r obtain ma mb where
    a: "ma \<in> set (run fl t (Rep (One D) lo1 hi1) m0)" and
    b: "mb \<in> set (run fl t X ma)" and
    c: "m1 \<in> set (run fl t (Rep (One D) lo2 hi2) mb)"
    by auto
  from run_Rep_trecho [OF a] obtain j1 where
    j1: "posicao ma = posicao m0 + j1" "\<forall>k<j1. py_isdigit (t ! (posicao m0 + k))"
    by auto
  from run_Rep_trecho [OF c] obtain j3 where
    j3: "posicao m1 = posicao mb + j3" "\<forall>k<j3. py_isdigit (t ! (posicao mb + k))"
    by auto
  from x [OF b] have s: "posicao ma \<le> posicao mb" "posicao mb \<le> Suc (posicao ma)"
    by simp_all
  have d1: "py_isdigit (t ! k)" if "posicao m0 \<le> k \<and> k < posicao ma" for k
  proof -
    from that j1(1) have "k - posicao m0 < j1" by auto
    with j1(2) have "py_isdigit (t ! (posicao m0 + (k - posicao m0)))" by blast
    with that show ?thesis by simp
  qed
  have d2: "py_isdigit (t ! k)" if "posicao mb \<le> k \<and> k < posicao m1" for k
  proof -
    from that j3(1) have "k - posicao mb < j3" by auto
    with j3(2) have "py_isdigit (t ! (posicao mb + (k - posicao mb)))" by blast
    with that show ?thesis by simp
  qed
  show ?thesis
    unfolding um_separador_def
    using j1(1) j3(1) s d1 d2
    by (intro exI [of _ "posicao ma"] exI [of _ "posicao mb"]) simp
qed

lemma corpos_dos_padroes_valor:
  assumes "padrao \<in> set padroes_valor" and "body \<in> set (corpos padrao)"
  shows "body = Cat (Rep (One D) 1 (Some 6))
                  (Cat (Rep (In [C (CHR '',''), C (CHR ''.'')]) 0 (Some 1))
                       (Cat (Rep (One D) 2 (Some 2)) Eps))
       \<or> body = Cat (Rep (One D) 1 (Some 4))
                  (Cat (Atom (In [C (CHR '',''), C (CHR ''.'')]))
                       (Cat (Rep (One D) 2 (Some 2)) Eps))"
  using assms
  by (auto simp: padroes_valor_def padrao_total_def padrao_total_ou_valor_def
        padrao_cifrao_def padrao_rs_def padrao_fim_de_linha_def padrao_isolado_def
        token_valor_def apos_palavra_def seq_def lit_def estrela_def opcional_def
        vezes_def entre_def)

lemma match_um_separador:
  assumes p: "padrao \<in> set padroes_valor"
    and m: "match \<in> set (findall flags_valor padrao linha)"
  shows "match = [] \<or> (\<exists>a b. um_separador linha a b \<and> match = take (b - a) (drop a linha))"
proof -
  from m obtain j mm where
    r: "mm \<in> set (run flags_valor linha padrao (comeca j))" and
    t: "match = texto_do_grupo linha mm"
    unfolding findall_def using findall_de_origem by blast
  from run_grupo [OF r] show ?thesis
  proof
    assume "grupo mm = grupo (comeca j)"
    with t show ?thesis by (simp add: texto_do_grupo_def comeca_def)
  next
    assume "\<exists>body\<in>set (corpos padrao). \<exists>m0 m1.
              m1 \<in> set (run flags_valor linha body m0) \<and>
              grupo mm = Some (posicao m0, posicao m1)"
    then obtain body m0 m1 where
      b: "body \<in> set (corpos padrao)" and
      r1: "m1 \<in> set (run flags_valor linha body m0)" and
      g: "grupo mm = Some (posicao m0, posicao m1)"
      by blast
    have u: "um_separador linha (posicao m0) (posicao m1)"
      using corpos_dos_padroes_valor [OF p b]
    proof
      assume e: "body = Cat (Rep (One D) 1 (Some 6))
                  (Cat (Rep (In [C (CHR '',''), C (CHR ''.'')]) 0 (Some 1))
                       (Cat (Rep (One D) 2 (Some 2)) Eps))"
      have "posicao m \<le> posicao m' \<and> posicao m' \<le> Suc (posicao m)"
        if "m' \<in> set (run flags_valor linha
                        (Rep (In [C (CHR '',''), C (CHR ''.'')]) 0 (Some 1)) m)" for m m'
        using run_Rep_trecho [OF that] by auto
      from digitos_separador_digitos [OF this r1 [unfolded e]] show ?thesis .
    next
      assume e: "body = Cat (Rep (One D) 1 (Some 4))
                  (Cat (Atom (In [C (CHR '',''), C (CHR ''.'')]))
                       (Cat (Rep (One D) 2 (Some 2)) Eps))"
      have "posicao m \<le> posicao m' \<and> posicao m' \<le> Suc (posicao m)"
        if "m' \<in> set (run flags_valor linha
                        (Atom (In [C (CHR '',''), C (CHR ''.'')])) m)" for m m'
        using that by (auto split: if_splits)
      from digitos_separador_digitos [OF this r1 [unfolded e]] show ?thesis .
    qed
    from t g have "match = take (posicao m1 - posicao m0) (drop (posicao m0) linha)"
      by (simp add: texto_do_grupo_def)
    with u show ?thesis by blast
  qed
qed

lemma match_sem_dois_separadores:
  assumes "padrao \<in> set padroes_valor"
    and "match \<in> set (findall flags_valor padrao linha)"
  shows "\<not> (CHR '','' \<in> set match \<and> CHR ''.'' \<in> set match)"
proof
  assume c: "CHR '','' \<in> set match \<and> CHR ''.'' \<in> set match"
  then have "match \<noteq> []" by auto
  with match_um_separador [OF assms] obtain a b where
    u: "um_separador linha a b" and e: "match = take (b - a) (drop a linha)"
    by blast
  have "\<not> py_isdigit (CHR '','')" "\<not> py_isdigit (CHR ''.'')"
    by (simp_all add: py_isdigit_def cp_def)
  with um_separador_conjunto [OF u, of "CHR '',''" "CHR ''.''"] c e
  show False by simp
qed

lemma valor_str_de_do_match:
  assumes "padrao \<in> set padroes_valor"
    and "match \<in> set (findall flags_valor padrao linha)"
  shows "valor_str_de match = replace_char (CHR '','') ''.'' match"
proof (cases "CHR '','' \<in> set match")
  case True
  with match_sem_dois_separadores [OF assms] have "CHR ''.'' \<notin> set match" by simp
  then have "replace_char (CHR ''.'') [] match = match"
    unfolding replace_char_def by (induction match) auto
  then show ?thesis by (simp add: valor_str_de_def Let_def)
next
  case False
  have "\<not> py_in '','' match"
    using False by (auto simp: py_in_iff ocorre_em_def)
  then show ?thesis by (simp add: valor_str_de_def Let_def)
qed

text \<open>
  C3. The normalization of lines 139 to 143 sends the string "1.234,56" to "1234.56",
  and the amounts "1234.56" and "45,90" are read as 1234.56 and 45.90. But a token of
  the patterns holds one separator at most (\<open>match_sem_dois_separadores\<close>), so the
  branch that removes the points never removes one (\<open>valor_str_de_do_match\<close>): in
  "TOTAL R$ 1.234,56" the matches are "1.23" and "234,56", and the amount extracted
  is 234.56.
\<close>

theorem valor_com_milhar_nao_reconhecido:
  "valor_str_de ''1.234,56'' = ''1234.56''
   \<and> concat (map (\<lambda>padrao. findall flags_valor padrao ''TOTAL R$ 1.234,56'') padroes_valor) =
       [''1.23'', ''1.23'', ''1.23'', ''234,56'']
   \<and> extrair_valor_total ''TOTAL R$ 1.234,56'' = 23456 / 100
   \<and> extrair_valor_total ''1.234,56'' = 23456 / 100
   \<and> extrair_valor_total ''1234.56'' = 123456 / 100
   \<and> extrair_valor_total ''45,90'' = 4590 / 100"
proof -
  have a: "valor_str_de ''1.234,56'' = ''1234.56''" by code_simp
  have b: "concat (map (\<lambda>padrao. findall flags_valor padrao ''TOTAL R$ 1.234,56'') padroes_valor) =
       [''1.23'', ''1.23'', ''1.23'', ''234,56'']"
    by code_simp
  have c: "extrair_valor_total ''TOTAL R$ 1.234,56'' = 23456 / 100" by code_simp
  have d: "extrair_valor_total ''1.234,56'' = 23456 / 100" by code_simp
  have e: "extrair_valor_total ''1234.56'' = 123456 / 100" by code_simp
  have f: "extrair_valor_total ''45,90'' = 4590 / 100" by code_simp
  from a b c d e f show ?thesis by blast
qed

end
